theory Spec2Isabelle
  imports Complex_Main
begin

section \<open>PsychroLib: a shallow embedding of \<^verbatim>\<open>psychrolib.py\<close>\<close>

text \<open>
  The library is one module of functions over Python floats plus two module globals.
  In this development
  \<^item> a Python \<^verbatim>\<open>float\<close> is a \<^typ>\<open>real\<close>: the decimal literals of the source are
    the exact rationals they denote and \<^verbatim>\<open>math.exp\<close>, \<^verbatim>\<open>math.log\<close> are \<^term>\<open>exp\<close>
    and \<^term>\<open>ln\<close>. Rounding, infinities, NaN and the \<^verbatim>\<open>OverflowError\<close> of
    \<^verbatim>\<open>math.exp\<close> and \<^verbatim>\<open>math.pow\<close> are outside the model;
  \<^item> the globals \<^verbatim>\<open>__UNITS\<close> and \<^verbatim>\<open>__TOL\<close> are the fields of a record that every
    function reading them takes as its first argument;
  \<^item> an exception is the left injection of a sum. Python raises \<^verbatim>\<open>ValueError\<close> with a message,
    \<^verbatim>\<open>ZeroDivisionError\<close> on a float division by zero and \<^verbatim>\<open>ValueError\<close>
    (\<^verbatim>\<open>math domain error\<close>) on the logarithm of a non-positive number;
  \<^item> the two \<^verbatim>\<open>while\<close> loops are partial functions into \<^typ>\<open>'a option\<close>:
    \<^term>\<open>None\<close> is a loop that runs forever.
\<close>

subsection \<open>Errors and results\<close>

datatype error = ValueError string | ZeroDivisionError

type_synonym 'a res = "error + 'a"

text \<open>Python's \<^verbatim>\<open>a / b\<close> on floats.\<close>

definition py_div :: "real \<Rightarrow> real \<Rightarrow> real res" where
  "py_div a b = (if b = 0 then Inl ZeroDivisionError else Inr (a / b))"

text \<open>Python's \<^verbatim>\<open>math.log(x)\<close>.\<close>

definition py_log :: "real \<Rightarrow> real res" where
  "py_log x = (if x \<le> 0 then Inl (ValueError ''math domain error'') else Inr (ln x))"

text \<open>
  Python's \<^verbatim>\<open>math.pow(x, y)\<close> for the positive exponent \<open>5.2559\<close>, the only one the
  source passes to it in this way: a negative base with an exponent that is not an integer
  raises \<^verbatim>\<open>ValueError\<close>, and a zero base gives zero, as \<^term>\<open>(powr)\<close> does.
\<close>

definition py_pow :: "real \<Rightarrow> real \<Rightarrow> real res" where
  "py_pow x y = (if x < 0 then Inl (ValueError ''math domain error'') else Inr (x powr y))"

subsection \<open>Global constants and the configuration state\<close>

definition R_DA_IP :: real where
  "R_DA_IP = 53.350"

definition R_DA_SI :: real where
  "R_DA_SI = 287.042"

datatype UnitSystem = IP | SI

text \<open>
  \<^verbatim>\<open>__UNITS = None\<close> and \<^verbatim>\<open>__TOL = 1.0\<close> at import time. Isabelle names cannot start
  with an underscore, so the fields are \<open>UNITS\<close> and \<open>TOL\<close>.
\<close>

record config =
  UNITS :: "UnitSystem option"
  TOL :: real

definition initial_config :: config where
  "initial_config = \<lparr>UNITS = None, TOL = 1.0\<rparr>"

text \<open>
  \<^verbatim>\<open>SetUnitSystem\<close> accepts any Python object and checks it with \<^verbatim>\<open>isinstance\<close>;
  \<open>OtherObject\<close> stands for every argument that is not a member of the enumeration.
\<close>

datatype pyobject = UnitSystemObject UnitSystem | OtherObject

definition SetUnitSystem :: "pyobject \<Rightarrow> config \<Rightarrow> config res" where
  "SetUnitSystem Units c =
     (case Units of
        OtherObject \<Rightarrow> Inl (ValueError ''The system of units has to be either SI or IP.'')
      | UnitSystemObject u \<Rightarrow>
          Inr (c\<lparr>UNITS := Some u, TOL := (if u = IP then 0.001 * 9 / 5 else 0.001)\<rparr>))"

definition GetUnitSystem :: "config \<Rightarrow> UnitSystem option" where
  "GetUnitSystem c = UNITS c"

definition isIP :: "config \<Rightarrow> bool res" where
  "isIP c =
     (if UNITS c = Some IP then Inr True
      else if UNITS c = Some SI then Inr False
      else Inl (ValueError ''The system of units has not been defined.''))"

subsection \<open>Temperature conversions\<close>

definition GetTRankineFromTFahrenheit :: "real \<Rightarrow> real" where
  "GetTRankineFromTFahrenheit TFahrenheit = TFahrenheit + 459.67"

definition GetTKelvinFromTCelsius :: "real \<Rightarrow> real" where
  "GetTKelvinFromTCelsius TCelsius = TCelsius + 273.15"

subsection \<open>Saturation vapor pressure\<close>

text \<open>
  The four regressions of \<^verbatim>\<open>GetSatVapPres\<close> for \<^verbatim>\<open>LnPws\<close>, as functions of the absolute
  temperature \<open>T\<close>. The source writes the coefficients in exponent notation
  (\<^verbatim>\<open>-1.0214165E+04\<close>, \<^verbatim>\<open>1.9202377E-07\<close>, ...), \<^verbatim>\<open>T**2\<close> and \<^verbatim>\<open>math.pow(T, n)\<close>.
  They divide by \<open>T\<close> and take its logarithm; \<open>T\<close> is positive wherever they are
  called (lemmas \<open>GetTRankineFromTFahrenheit_pos\<close> and \<open>GetTKelvinFromTCelsius_pos\<close>),
  so neither can raise there.
\<close>

definition LnPws_IP_ice :: "real \<Rightarrow> real" where
  "LnPws_IP_ice T =
     - 10214.165 / T - 4.8932428 - 5.3765794 / 10 ^ 3 * T + 1.9202377 / 10 ^ 7 * T ^ 2
     + 3.5575832 / 10 ^ 10 * T ^ 3 - 9.0344688 / 10 ^ 14 * T ^ 4 + 4.1635019 * ln T"

definition LnPws_IP_water :: "real \<Rightarrow> real" where
  "LnPws_IP_water T =
     - 10440.397 / T - 11.294650 - 2.7022355 / 10 ^ 2 * T + 1.2890360 / 10 ^ 5 * T ^ 2
     - 2.4780681 / 10 ^ 9 * T ^ 3 + 6.5459673 * ln T"

definition LnPws_SI_ice :: "real \<Rightarrow> real" where
  "LnPws_SI_ice T =
     - 5674.5359 / T + 6.3925247 - 9.677843 / 10 ^ 3 * T + 6.2215701 / 10 ^ 7 * T ^ 2
     + 2.0747825 / 10 ^ 9 * T ^ 3 - 9.484024 / 10 ^ 13 * T ^ 4 + 4.1635019 * ln T"

definition LnPws_SI_water :: "real \<Rightarrow> real" where
  "LnPws_SI_water T =
     - 5800.2206 / T + 1.3914993 - 4.8640239 / 10 ^ 2 * T + 4.1764768 / 10 ^ 5 * T ^ 2
     - 1.4452093 / 10 ^ 8 * T ^ 3 + 6.5459673 * ln T"

definition GetSatVapPres :: "config \<Rightarrow> real \<Rightarrow> real res" where
  "GetSatVapPres c TDryBulb =
     (case isIP c of
        Inl e \<Rightarrow> Inl e
      | Inr True \<Rightarrow>
          if TDryBulb < - 148 \<or> TDryBulb > 392
          then Inl (ValueError (''Dry bulb temperature must be in range [-148, 392]'' @ [CHR 0xB0] @ ''F''))
          else let T = GetTRankineFromTFahrenheit TDryBulb in
            Inr (exp (if TDryBulb \<le> 32 then LnPws_IP_ice T else LnPws_IP_water T))
      | Inr False \<Rightarrow>
          if TDryBulb < - 100 \<or> TDryBulb > 200
          then Inl (ValueError (''Dry bulb temperature must be in range [-100, 200]'' @ [CHR 0xB0] @ ''C''))
          else let T = GetTKelvinFromTCelsius TDryBulb in
            Inr (exp (if TDryBulb \<le> 0 then LnPws_SI_ice T else LnPws_SI_water T)))"

subsection \<open>Relative humidity and vapor pressure\<close>

definition GetVapPresFromRelHum :: "config \<Rightarrow> real \<Rightarrow> real \<Rightarrow> real res" where
  "GetVapPresFromRelHum c TDryBulb RelHum =
     (if RelHum < 0 \<or> RelHum > 1
      then Inl (ValueError ''Relative humidity is outside range [0, 1]'')
      else case GetSatVapPres c TDryBulb of
             Inl e \<Rightarrow> Inl e
           | Inr SatVapPres \<Rightarrow> Inr (RelHum * SatVapPres))"

definition GetRelHumFromVapPres :: "config \<Rightarrow> real \<Rightarrow> real \<Rightarrow> real res" where
  "GetRelHumFromVapPres c TDryBulb VapPres =
     (if VapPres < 0
      then Inl (ValueError ''Partial pressure of water vapor in moist air cannot be negative'')
      else case GetSatVapPres c TDryBulb of
             Inl e \<Rightarrow> Inl e
           | Inr SatVapPres \<Rightarrow> py_div VapPres SatVapPres)"


subsection \<open>Humidity ratio and vapor pressure\<close>

definition GetHumRatioFromVapPres :: "real \<Rightarrow> real \<Rightarrow> real res" where
  "GetHumRatioFromVapPres VapPres Pressure =
     (if VapPres < 0
      then Inl (ValueError ''Partial pressure of water vapor in moist air cannot be negative'')
      else py_div (0.621945 * VapPres) (Pressure - VapPres))"

definition GetVapPresFromHumRatio :: "real \<Rightarrow> real \<Rightarrow> real res" where
  "GetVapPresFromHumRatio HumRatio Pressure =
     (if HumRatio < 0
      then Inl (ValueError ''Humidity ratio is negative'')
      else py_div (Pressure * HumRatio) (0.621945 + HumRatio))"

definition GetSatHumRatio :: "config \<Rightarrow> real \<Rightarrow> real \<Rightarrow> real res" where
  "GetSatHumRatio c TDryBulb Pressure =
     (case GetSatVapPres c TDryBulb of
        Inl e \<Rightarrow> Inl e
      | Inr SatVaporPres \<Rightarrow> py_div (0.621945 * SatVaporPres) (Pressure - SatVaporPres))"

definition GetHumRatioFromTDewPoint :: "config \<Rightarrow> real \<Rightarrow> real \<Rightarrow> real res" where
  "GetHumRatioFromTDewPoint c TDewPoint Pressure =
     (case GetSatVapPres c TDewPoint of
        Inl e \<Rightarrow> Inl e
      | Inr VapPres \<Rightarrow> GetHumRatioFromVapPres VapPres Pressure)"

definition GetHumRatioFromRelHum :: "config \<Rightarrow> real \<Rightarrow> real \<Rightarrow> real \<Rightarrow> real res" where
  "GetHumRatioFromRelHum c TDryBulb RelHum Pressure =
     (if RelHum < 0 \<or> RelHum > 1
      then Inl (ValueError ''Relative humidity is outside range [0, 1]'')
      else case GetVapPresFromRelHum c TDryBulb RelHum of
             Inl e \<Rightarrow> Inl e
           | Inr VapPres \<Rightarrow> GetHumRatioFromVapPres VapPres Pressure)"

definition GetRelHumFromHumRatio :: "config \<Rightarrow> real \<Rightarrow> real \<Rightarrow> real \<Rightarrow> real res" where
  "GetRelHumFromHumRatio c TDryBulb HumRatio Pressure =
     (if HumRatio < 0
      then Inl (ValueError ''Humidity ratio cannot be negative'')
      else case GetVapPresFromHumRatio HumRatio Pressure of
             Inl e \<Rightarrow> Inl e
           | Inr VapPres \<Rightarrow> GetRelHumFromVapPres c TDryBulb VapPres)"

definition GetRelHumFromTDewPoint :: "config \<Rightarrow> real \<Rightarrow> real \<Rightarrow> real res" where
  "GetRelHumFromTDewPoint c TDryBulb TDewPoint =
     (if TDewPoint > TDryBulb
      then Inl (ValueError ''Dew point temperature is above dry bulb temperature'')
      else case GetSatVapPres c TDewPoint of
             Inl e \<Rightarrow> Inl e
           | Inr VapPres \<Rightarrow>
               (case GetSatVapPres c TDryBulb of
                  Inl e \<Rightarrow> Inl e
                | Inr SatVapPres \<Rightarrow> py_div VapPres SatVapPres))"

definition GetHumRatioFromTWetBulb :: "config \<Rightarrow> real \<Rightarrow> real \<Rightarrow> real \<Rightarrow> real res" where
  "GetHumRatioFromTWetBulb c TDryBulb TWetBulb Pressure =
     (if TWetBulb > TDryBulb
      then Inl (ValueError ''Wet bulb temperature is above dry bulb temperature'')
      else case GetSatHumRatio c TWetBulb Pressure of
             Inl e \<Rightarrow> Inl e
           | Inr Wsstar \<Rightarrow>
               (case isIP c of
                  Inl e \<Rightarrow> Inl e
                | Inr True \<Rightarrow>
                    if TWetBulb \<ge> 32
                    then py_div ((1093 - 0.556 * TWetBulb) * Wsstar - 0.240 * (TDryBulb - TWetBulb))
                                (1093 + 0.444 * TDryBulb - TWetBulb)
                    else py_div ((1220 - 0.04 * TWetBulb) * Wsstar - 0.240 * (TDryBulb - TWetBulb))
                                (1220 + 0.444 * TDryBulb - 0.48 * TWetBulb)
                | Inr False \<Rightarrow>
                    if TWetBulb \<ge> 0
                    then py_div ((2501 - 2.326 * TWetBulb) * Wsstar - 1.006 * (TDryBulb - TWetBulb))
                                (2501 + 1.86 * TDryBulb - 4.186 * TWetBulb)
                    else py_div ((2830 - 0.24 * TWetBulb) * Wsstar - 1.006 * (TDryBulb - TWetBulb))
                                (2830 + 1.86 * TDryBulb - 2.1 * TWetBulb)))"

definition GetRelHumFromTWetBulb :: "config \<Rightarrow> real \<Rightarrow> real \<Rightarrow> real \<Rightarrow> real res" where
  "GetRelHumFromTWetBulb c TDryBulb TWetBulb Pressure =
     (if TWetBulb > TDryBulb
      then Inl (ValueError ''Wet bulb temperature is above dry bulb temperature'')
      else case GetHumRatioFromTWetBulb c TDryBulb TWetBulb Pressure of
             Inl e \<Rightarrow> Inl e
           | Inr HumRatio \<Rightarrow> GetRelHumFromHumRatio c TDryBulb HumRatio Pressure)"

subsection \<open>Dew point from vapor pressure: the Newton-Raphson inversion\<close>

text \<open>
  The locals \<^verbatim>\<open>_BOUNDS\<close> and \<^verbatim>\<open>_STEPSIZE\<close> of \<^verbatim>\<open>GetTDewPointFromVapPres\<close>, chosen by
  \<^verbatim>\<open>isIP()\<close>.
\<close>

definition BOUNDS :: "bool \<Rightarrow> real \<times> real" where
  "BOUNDS ip = (if ip then (- 148, 392) else (- 100, 200))"

definition STEPSIZE :: "bool \<Rightarrow> real" where
  "STEPSIZE ip = (if ip then 0.01 * 9 / 5 else 0.01)"

text \<open>
  One pass through the body of the \<^verbatim>\<open>while True\<close> loop, from \<^verbatim>\<open>TDewPoint_iter\<close> to the
  new, clamped \<^verbatim>\<open>TDewPoint\<close>. Every call that can raise is a branch, in the order in which
  Python evaluates them.
\<close>

definition NR_step :: "config \<Rightarrow> bool \<Rightarrow> real \<Rightarrow> real \<Rightarrow> real res" where
  "NR_step c ip lnVP TDewPoint_iter =
     (let TMidPoint = (fst (BOUNDS ip) + snd (BOUNDS ip)) / 2;
          StepSize = (if TDewPoint_iter > TMidPoint then - STEPSIZE ip else STEPSIZE ip)
      in case GetSatVapPres c TDewPoint_iter of
           Inl e \<Rightarrow> Inl e
         | Inr p_iter \<Rightarrow>
        (case py_log p_iter of
           Inl e \<Rightarrow> Inl e
         | Inr lnVP_iter \<Rightarrow>
        (case GetSatVapPres c (TDewPoint_iter + StepSize) of
           Inl e \<Rightarrow> Inl e
         | Inr p_step \<Rightarrow>
        (case py_log p_step of
           Inl e \<Rightarrow> Inl e
         | Inr lnVP_step \<Rightarrow>
        (case py_div (lnVP_step - lnVP_iter) StepSize of
           Inl e \<Rightarrow> Inl e
         | Inr d_lnVP \<Rightarrow>
        (case py_div (lnVP_iter - lnVP) d_lnVP of
           Inl e \<Rightarrow> Inl e
         | Inr delta \<Rightarrow>
             Inr (min (max (TDewPoint_iter - delta) (fst (BOUNDS ip))) (snd (BOUNDS ip)))))))))"

text \<open>
  The loop itself: it leaves with the new estimate when two consecutive estimates differ
  by at most \<^verbatim>\<open>__TOL\<close>, and has no iteration cap.
\<close>

partial_function (option) NR_loop :: "config \<Rightarrow> bool \<Rightarrow> real \<Rightarrow> real \<Rightarrow> real res option" where
  "NR_loop c ip lnVP TDewPoint =
     (case NR_step c ip lnVP TDewPoint of
        Inl e \<Rightarrow> Some (Inl e)
      | Inr TDewPoint' \<Rightarrow>
          if \<bar>TDewPoint' - TDewPoint\<bar> \<le> TOL c then Some (Inr TDewPoint')
          else NR_loop c ip lnVP TDewPoint')"

definition GetTDewPointFromVapPres :: "config \<Rightarrow> real \<Rightarrow> real \<Rightarrow> real res option" where
  "GetTDewPointFromVapPres c TDryBulb VapPres =
     (case isIP c of
        Inl e \<Rightarrow> Some (Inl e)
      | Inr ip \<Rightarrow>
        (case GetSatVapPres c (fst (BOUNDS ip)) of
           Inl e \<Rightarrow> Some (Inl e)
         | Inr SatVapPres_lo \<Rightarrow>
             if VapPres < SatVapPres_lo
             then Some (Inl (ValueError
                    ''Partial pressure of water vapor is outside range of validity of equations''))
             else
        (case GetSatVapPres c (snd (BOUNDS ip)) of
           Inl e \<Rightarrow> Some (Inl e)
         | Inr SatVapPres_hi \<Rightarrow>
             if VapPres > SatVapPres_hi
             then Some (Inl (ValueError
                    ''Partial pressure of water vapor is outside range of validity of equations''))
             else
        (case py_log VapPres of
           Inl e \<Rightarrow> Some (Inl e)
         | Inr lnVP \<Rightarrow>
        (case NR_loop c ip lnVP TDryBulb of
           None \<Rightarrow> None
         | Some (Inl e) \<Rightarrow> Some (Inl e)
         | Some (Inr TDewPoint) \<Rightarrow> Some (Inr (min TDewPoint TDryBulb)))))))"

definition GetTDewPointFromRelHum :: "config \<Rightarrow> real \<Rightarrow> real \<Rightarrow> real res option" where
  "GetTDewPointFromRelHum c TDryBulb RelHum =
     (if RelHum < 0 \<or> RelHum > 1
      then Some (Inl (ValueError ''Relative humidity is outside range [0, 1]''))
      else case GetVapPresFromRelHum c TDryBulb RelHum of
             Inl e \<Rightarrow> Some (Inl e)
           | Inr VapPres \<Rightarrow> GetTDewPointFromVapPres c TDryBulb VapPres)"

definition GetTDewPointFromHumRatio :: "config \<Rightarrow> real \<Rightarrow> real \<Rightarrow> real \<Rightarrow> real res option" where
  "GetTDewPointFromHumRatio c TDryBulb HumRatio Pressure =
     (if HumRatio < 0
      then Some (Inl (ValueError ''Humidity ratio cannot be negative''))
      else case GetVapPresFromHumRatio HumRatio Pressure of
             Inl e \<Rightarrow> Some (Inl e)
           | Inr VapPres \<Rightarrow> GetTDewPointFromVapPres c TDryBulb VapPres)"

definition GetTDewPointFromTWetBulb :: "config \<Rightarrow> real \<Rightarrow> real \<Rightarrow> real \<Rightarrow> real res option" where
  "GetTDewPointFromTWetBulb c TDryBulb TWetBulb Pressure =
     (if TWetBulb > TDryBulb
      then Some (Inl (ValueError ''Wet bulb temperature is above dry bulb temperature''))
      else case GetHumRatioFromTWetBulb c TDryBulb TWetBulb Pressure of
             Inl e \<Rightarrow> Some (Inl e)
           | Inr HumRatio \<Rightarrow> GetTDewPointFromHumRatio c TDryBulb HumRatio Pressure)"

subsection \<open>Wet bulb from humidity ratio: the bisection\<close>

text \<open>
  The \<^verbatim>\<open>while\<close> loop of \<^verbatim>\<open>GetTWetBulbFromHumRatio\<close> on its three variables
  \<^verbatim>\<open>TWetBulbSup\<close>, \<^verbatim>\<open>TWetBulbInf\<close> and \<^verbatim>\<open>TWetBulb\<close>.
\<close>

partial_function (option) bisection_loop ::
  "config \<Rightarrow> real \<Rightarrow> real \<Rightarrow> real \<Rightarrow> real \<Rightarrow> real \<Rightarrow> real \<Rightarrow> real res option" where
  "bisection_loop c TDryBulb HumRatio Pressure TWetBulbSup TWetBulbInf TWetBulb =
     (if TWetBulbSup - TWetBulbInf > TOL c
      then case GetHumRatioFromTWetBulb c TDryBulb TWetBulb Pressure of
             Inl e \<Rightarrow> Some (Inl e)
           | Inr Wstar \<Rightarrow>
               if Wstar > HumRatio
               then bisection_loop c TDryBulb HumRatio Pressure
                      TWetBulb TWetBulbInf ((TWetBulb + TWetBulbInf) / 2)
               else bisection_loop c TDryBulb HumRatio Pressure
                      TWetBulbSup TWetBulb ((TWetBulbSup + TWetBulb) / 2)
      else Some (Inr TWetBulb))"

definition GetTWetBulbFromHumRatio :: "config \<Rightarrow> real \<Rightarrow> real \<Rightarrow> real \<Rightarrow> real res option" where
  "GetTWetBulbFromHumRatio c TDryBulb HumRatio Pressure =
     (if HumRatio < 0
      then Some (Inl (ValueError ''Humidity ratio cannot be negative''))
      else case GetTDewPointFromHumRatio c TDryBulb HumRatio Pressure of
             None \<Rightarrow> None
           | Some (Inl e) \<Rightarrow> Some (Inl e)
           | Some (Inr TDewPoint) \<Rightarrow>
               bisection_loop c TDryBulb HumRatio Pressure
                 TDryBulb TDewPoint ((TDewPoint + TDryBulb) / 2))"

definition GetTWetBulbFromTDewPoint :: "config \<Rightarrow> real \<Rightarrow> real \<Rightarrow> real \<Rightarrow> real res option" where
  "GetTWetBulbFromTDewPoint c TDryBulb TDewPoint Pressure =
     (if TDewPoint > TDryBulb
      then Some (Inl (ValueError ''Dew point temperature is above dry bulb temperature''))
      else case GetHumRatioFromTDewPoint c TDewPoint Pressure of
             Inl e \<Rightarrow> Some (Inl e)
           | Inr HumRatio \<Rightarrow> GetTWetBulbFromHumRatio c TDryBulb HumRatio Pressure)"

definition GetTWetBulbFromRelHum :: "config \<Rightarrow> real \<Rightarrow> real \<Rightarrow> real \<Rightarrow> real res option" where
  "GetTWetBulbFromRelHum c TDryBulb RelHum Pressure =
     (if RelHum < 0 \<or> RelHum > 1
      then Some (Inl (ValueError ''Relative humidity is outside range [0, 1]''))
      else case GetHumRatioFromRelHum c TDryBulb RelHum Pressure of
             Inl e \<Rightarrow> Some (Inl e)
           | Inr HumRatio \<Rightarrow> GetTWetBulbFromHumRatio c TDryBulb HumRatio Pressure)"

text \<open>
  The bisection as the specification words it, on the interval alone: stop when the
  width is at most the tolerance and return the midpoint; otherwise the midpoint replaces
  the upper bound if its humidity ratio exceeds the target, and the lower bound if not.
  A fault of \<^verbatim>\<open>GetHumRatioFromTWetBulb\<close> at a midpoint ends the search with that fault.
\<close>

inductive bisection_spec ::
  "config \<Rightarrow> real \<Rightarrow> real \<Rightarrow> real \<Rightarrow> real \<Rightarrow> real \<Rightarrow> real res \<Rightarrow> bool"
  for c TDryBulb HumRatio Pressure where
  narrow_enough:
    "upper - lower \<le> TOL c \<Longrightarrow>
     bisection_spec c TDryBulb HumRatio Pressure lower upper (Inr ((lower + upper) / 2))"
| midpoint_fault:
    "upper - lower > TOL c \<Longrightarrow>
     GetHumRatioFromTWetBulb c TDryBulb ((lower + upper) / 2) Pressure = Inl e \<Longrightarrow>
     bisection_spec c TDryBulb HumRatio Pressure lower upper (Inl e)"
| new_upper:
    "upper - lower > TOL c \<Longrightarrow>
     GetHumRatioFromTWetBulb c TDryBulb ((lower + upper) / 2) Pressure = Inr Wstar \<Longrightarrow>
     Wstar > HumRatio \<Longrightarrow>
     bisection_spec c TDryBulb HumRatio Pressure lower ((lower + upper) / 2) r \<Longrightarrow>
     bisection_spec c TDryBulb HumRatio Pressure lower upper r"
| new_lower:
    "upper - lower > TOL c \<Longrightarrow>
     GetHumRatioFromTWetBulb c TDryBulb ((lower + upper) / 2) Pressure = Inr Wstar \<Longrightarrow>
     \<not> Wstar > HumRatio \<Longrightarrow>
     bisection_spec c TDryBulb HumRatio Pressure ((lower + upper) / 2) upper r \<Longrightarrow>
     bisection_spec c TDryBulb HumRatio Pressure lower upper r"

code_pred (modes: i \<Rightarrow> i \<Rightarrow> i \<Rightarrow> i \<Rightarrow> i \<Rightarrow> i \<Rightarrow> o \<Rightarrow> bool) bisection_spec .

subsection \<open>Dry and moist air\<close>

definition GetDryAirEnthalpy :: "config \<Rightarrow> real \<Rightarrow> real res" where
  "GetDryAirEnthalpy c TDryBulb =
     (case isIP c of
        Inl e \<Rightarrow> Inl e
      | Inr True \<Rightarrow> Inr (0.240 * TDryBulb)
      | Inr False \<Rightarrow> Inr (1006 * TDryBulb))"

definition GetVaporPressureDeficit :: "config \<Rightarrow> real \<Rightarrow> real \<Rightarrow> real \<Rightarrow> real res" where
  "GetVaporPressureDeficit c TDryBulb HumRatio Pressure =
     (if HumRatio < 0
      then Inl (ValueError ''Humidity ratio is negative'')
      else case GetRelHumFromHumRatio c TDryBulb HumRatio Pressure of
             Inl e \<Rightarrow> Inl e
           | Inr RelHum \<Rightarrow>
               (case GetSatVapPres c TDryBulb of
                  Inl e \<Rightarrow> Inl e
                | Inr SatVapPres \<Rightarrow> Inr (SatVapPres * (1 - RelHum))))"

definition GetDegreeOfSaturation :: "config \<Rightarrow> real \<Rightarrow> real \<Rightarrow> real \<Rightarrow> real res" where
  "GetDegreeOfSaturation c TDryBulb HumRatio Pressure =
     (if HumRatio < 0
      then Inl (ValueError ''Humidity ratio is negative'')
      else case GetSatHumRatio c TDryBulb Pressure of
             Inl e \<Rightarrow> Inl e
           | Inr SatHumRatio \<Rightarrow> py_div HumRatio SatHumRatio)"

definition GetMoistAirEnthalpy :: "config \<Rightarrow> real \<Rightarrow> real \<Rightarrow> real res" where
  "GetMoistAirEnthalpy c TDryBulb HumRatio =
     (if HumRatio < 0
      then Inl (ValueError ''Humidity ratio is negative'')
      else case isIP c of
             Inl e \<Rightarrow> Inl e
           | Inr True \<Rightarrow> Inr (0.240 * TDryBulb + HumRatio * (1061 + 0.444 * TDryBulb))
           | Inr False \<Rightarrow> Inr ((1.006 * TDryBulb + HumRatio * (2501 + 1.86 * TDryBulb)) * 1000))"

definition GetMoistAirVolume :: "config \<Rightarrow> real \<Rightarrow> real \<Rightarrow> real \<Rightarrow> real res" where
  "GetMoistAirVolume c TDryBulb HumRatio Pressure =
     (if HumRatio < 0
      then Inl (ValueError ''Humidity ratio is negative'')
      else case isIP c of
             Inl e \<Rightarrow> Inl e
           | Inr True \<Rightarrow>
               py_div (R_DA_IP * GetTRankineFromTFahrenheit TDryBulb * (1 + 1.607858 * HumRatio))
                      (144 * Pressure)
           | Inr False \<Rightarrow>
               py_div (R_DA_SI * GetTKelvinFromTCelsius TDryBulb * (1 + 1.607858 * HumRatio))
                      Pressure)"

definition GetMoistAirDensity :: "config \<Rightarrow> real \<Rightarrow> real \<Rightarrow> real \<Rightarrow> real res" where
  "GetMoistAirDensity c TDryBulb HumRatio Pressure =
     (if HumRatio < 0
      then Inl (ValueError ''Humidity ratio is negative'')
      else case GetMoistAirVolume c TDryBulb HumRatio Pressure of
             Inl e \<Rightarrow> Inl e
           | Inr MoistAirVolume \<Rightarrow> py_div (1 + HumRatio) MoistAirVolume)"

subsection \<open>Dry air, vapor pressure at the dew point, saturated air\<close>

definition GetVapPresFromTDewPoint :: "config \<Rightarrow> real \<Rightarrow> real res" where
  "GetVapPresFromTDewPoint c TDewPoint = GetSatVapPres c TDewPoint"

definition GetDryAirDensity :: "config \<Rightarrow> real \<Rightarrow> real \<Rightarrow> real res" where
  "GetDryAirDensity c TDryBulb Pressure =
     (case isIP c of
        Inl e \<Rightarrow> Inl e
      | Inr True \<Rightarrow>
          (case py_div (144 * Pressure) R_DA_IP of
             Inl e \<Rightarrow> Inl e
           | Inr q \<Rightarrow> py_div q (GetTRankineFromTFahrenheit TDryBulb))
      | Inr False \<Rightarrow>
          (case py_div Pressure R_DA_SI of
             Inl e \<Rightarrow> Inl e
           | Inr q \<Rightarrow> py_div q (GetTKelvinFromTCelsius TDryBulb)))"

definition GetDryAirVolume :: "config \<Rightarrow> real \<Rightarrow> real \<Rightarrow> real res" where
  "GetDryAirVolume c TDryBulb Pressure =
     (case isIP c of
        Inl e \<Rightarrow> Inl e
      | Inr True \<Rightarrow> py_div (GetTRankineFromTFahrenheit TDryBulb * R_DA_IP) (144 * Pressure)
      | Inr False \<Rightarrow> py_div (GetTKelvinFromTCelsius TDryBulb * R_DA_SI) Pressure)"

definition GetSatAirEnthalpy :: "config \<Rightarrow> real \<Rightarrow> real \<Rightarrow> real res" where
  "GetSatAirEnthalpy c TDryBulb Pressure =
     (case GetSatHumRatio c TDryBulb Pressure of
        Inl e \<Rightarrow> Inl e
      | Inr SatHumRatio \<Rightarrow> GetMoistAirEnthalpy c TDryBulb SatHumRatio)"

subsection \<open>Standard atmosphere\<close>

definition GetStandardAtmPressure :: "config \<Rightarrow> real \<Rightarrow> real res" where
  "GetStandardAtmPressure c Altitude =
     (case isIP c of
        Inl e \<Rightarrow> Inl e
      | Inr True \<Rightarrow>
          (case py_pow (1 - 6.8754 / 10 ^ 6 * Altitude) 5.2559 of
             Inl e \<Rightarrow> Inl e
           | Inr q \<Rightarrow> Inr (14.696 * q))
      | Inr False \<Rightarrow>
          (case py_pow (1 - 2.25577 / 10 ^ 5 * Altitude) 5.2559 of
             Inl e \<Rightarrow> Inl e
           | Inr q \<Rightarrow> Inr (101325 * q)))"

definition GetStandardAtmTemperature :: "config \<Rightarrow> real \<Rightarrow> real res" where
  "GetStandardAtmTemperature c Altitude =
     (case isIP c of
        Inl e \<Rightarrow> Inl e
      | Inr True \<Rightarrow> Inr (59 - 0.00356620 * Altitude)
      | Inr False \<Rightarrow> Inr (15 - 0.0065 * Altitude))"

definition GetSeaLevelPressure :: "config \<Rightarrow> real \<Rightarrow> real \<Rightarrow> real \<Rightarrow> real res" where
  "GetSeaLevelPressure c StationPressure Altitude TDryBulb =
     (case isIP c of
        Inl e \<Rightarrow> Inl e
      | Inr ip \<Rightarrow>
          let H = (if ip
                   then let TColumn = TDryBulb + 0.0036 * Altitude / 2
                        in 53.351 * GetTRankineFromTFahrenheit TColumn
                   else let TColumn = TDryBulb + 0.0065 * Altitude / 2
                        in 287.055 * GetTKelvinFromTCelsius TColumn / 9.807)
          in case py_div Altitude H of
               Inl e \<Rightarrow> Inl e
             | Inr q \<Rightarrow> Inr (StationPressure * exp q))"

definition GetStationPressure :: "config \<Rightarrow> real \<Rightarrow> real \<Rightarrow> real \<Rightarrow> real res" where
  "GetStationPressure c SeaLevelPressure Altitude TDryBulb =
     (case GetSeaLevelPressure c 1 Altitude TDryBulb of
        Inl e \<Rightarrow> Inl e
      | Inr s \<Rightarrow> py_div SeaLevelPressure s)"

subsection \<open>The composite accessors\<close>

text \<open>
  Each returns a 7-tuple. The seven calls run in the order of the source and the first
  fault, or the first loop that does not end, is the outcome of the whole call.
\<close>

type_synonym psychrometrics = "real \<times> real \<times> real \<times> real \<times> real \<times> real \<times> real"

definition CalcPsychrometricsFromTWetBulb ::
  "config \<Rightarrow> real \<Rightarrow> real \<Rightarrow> real \<Rightarrow> psychrometrics res option" where
  "CalcPsychrometricsFromTWetBulb c TDryBulb TWetBulb Pressure =
     (case GetHumRatioFromTWetBulb c TDryBulb TWetBulb Pressure of
        Inl e \<Rightarrow> Some (Inl e)
      | Inr HumRatio \<Rightarrow>
     (case GetTDewPointFromHumRatio c TDryBulb HumRatio Pressure of
        None \<Rightarrow> None
      | Some (Inl e) \<Rightarrow> Some (Inl e)
      | Some (Inr TDewPoint) \<Rightarrow>
     (case GetRelHumFromHumRatio c TDryBulb HumRatio Pressure of
        Inl e \<Rightarrow> Some (Inl e)
      | Inr RelHum \<Rightarrow>
     (case GetVapPresFromHumRatio HumRatio Pressure of
        Inl e \<Rightarrow> Some (Inl e)
      | Inr VapPres \<Rightarrow>
     (case GetMoistAirEnthalpy c TDryBulb HumRatio of
        Inl e \<Rightarrow> Some (Inl e)
      | Inr MoistAirEnthalpy \<Rightarrow>
     (case GetMoistAirVolume c TDryBulb HumRatio Pressure of
        Inl e \<Rightarrow> Some (Inl e)
      | Inr MoistAirVolume \<Rightarrow>
     (case GetDegreeOfSaturation c TDryBulb HumRatio Pressure of
        Inl e \<Rightarrow> Some (Inl e)
      | Inr DegreeOfSaturation \<Rightarrow>
          Some (Inr (HumRatio, TDewPoint, RelHum, VapPres, MoistAirEnthalpy, MoistAirVolume,
                     DegreeOfSaturation)))))))))"

definition CalcPsychrometricsFromTDewPoint ::
  "config \<Rightarrow> real \<Rightarrow> real \<Rightarrow> real \<Rightarrow> psychrometrics res option" where
  "CalcPsychrometricsFromTDewPoint c TDryBulb TDewPoint Pressure =
     (case GetHumRatioFromTDewPoint c TDewPoint Pressure of
        Inl e \<Rightarrow> Some (Inl e)
      | Inr HumRatio \<Rightarrow>
     (case GetTWetBulbFromHumRatio c TDryBulb HumRatio Pressure of
        None \<Rightarrow> None
      | Some (Inl e) \<Rightarrow> Some (Inl e)
      | Some (Inr TWetBulb) \<Rightarrow>
     (case GetRelHumFromHumRatio c TDryBulb HumRatio Pressure of
        Inl e \<Rightarrow> Some (Inl e)
      | Inr RelHum \<Rightarrow>
     (case GetVapPresFromHumRatio HumRatio Pressure of
        Inl e \<Rightarrow> Some (Inl e)
      | Inr VapPres \<Rightarrow>
     (case GetMoistAirEnthalpy c TDryBulb HumRatio of
        Inl e \<Rightarrow> Some (Inl e)
      | Inr MoistAirEnthalpy \<Rightarrow>
     (case GetMoistAirVolume c TDryBulb HumRatio Pressure of
        Inl e \<Rightarrow> Some (Inl e)
      | Inr MoistAirVolume \<Rightarrow>
     (case GetDegreeOfSaturation c TDryBulb HumRatio Pressure of
        Inl e \<Rightarrow> Some (Inl e)
      | Inr DegreeOfSaturation \<Rightarrow>
          Some (Inr (HumRatio, TWetBulb, RelHum, VapPres, MoistAirEnthalpy, MoistAirVolume,
                     DegreeOfSaturation)))))))))"

definition CalcPsychrometricsFromRelHum ::
  "config \<Rightarrow> real \<Rightarrow> real \<Rightarrow> real \<Rightarrow> psychrometrics res option" where
  "CalcPsychrometricsFromRelHum c TDryBulb RelHum Pressure =
     (case GetHumRatioFromRelHum c TDryBulb RelHum Pressure of
        Inl e \<Rightarrow> Some (Inl e)
      | Inr HumRatio \<Rightarrow>
     (case GetTWetBulbFromHumRatio c TDryBulb HumRatio Pressure of
        None \<Rightarrow> None
      | Some (Inl e) \<Rightarrow> Some (Inl e)
      | Some (Inr TWetBulb) \<Rightarrow>
     (case GetTDewPointFromHumRatio c TDryBulb HumRatio Pressure of
        None \<Rightarrow> None
      | Some (Inl e) \<Rightarrow> Some (Inl e)
      | Some (Inr TDewPoint) \<Rightarrow>
     (case GetVapPresFromHumRatio HumRatio Pressure of
        Inl e \<Rightarrow> Some (Inl e)
      | Inr VapPres \<Rightarrow>
     (case GetMoistAirEnthalpy c TDryBulb HumRatio of
        Inl e \<Rightarrow> Some (Inl e)
      | Inr MoistAirEnthalpy \<Rightarrow>
     (case GetMoistAirVolume c TDryBulb HumRatio Pressure of
        Inl e \<Rightarrow> Some (Inl e)
      | Inr MoistAirVolume \<Rightarrow>
     (case GetDegreeOfSaturation c TDryBulb HumRatio Pressure of
        Inl e \<Rightarrow> Some (Inl e)
      | Inr DegreeOfSaturation \<Rightarrow>
          Some (Inr (HumRatio, TWetBulb, TDewPoint, VapPres, MoistAirEnthalpy, MoistAirVolume,
                     DegreeOfSaturation)))))))))"

text \<open>The two configurations that \<^verbatim>\<open>SetUnitSystem\<close> can produce.\<close>

definition config_SI :: config where
  "config_SI = \<lparr>UNITS = Some SI, TOL = 0.001\<rparr>"

definition config_IP :: config where
  "config_IP = \<lparr>UNITS = Some IP, TOL = 0.001 * 9 / 5\<rparr>"

subsection \<open>Notions used to state the properties\<close>

text \<open>
  The fitted range of \<^verbatim>\<open>GetSatVapPres\<close> in the selected unit system: the temperatures
  that pass its range check. No temperature is valid while the unit system is unset.
\<close>

definition valid_TDryBulb :: "config \<Rightarrow> real \<Rightarrow> bool" where
  "valid_TDryBulb c TDryBulb =
     (case UNITS c of
        None \<Rightarrow> False
      | Some IP \<Rightarrow> - 148 \<le> TDryBulb \<and> TDryBulb \<le> 392
      | Some SI \<Rightarrow> - 100 \<le> TDryBulb \<and> TDryBulb \<le> 200)"

text \<open>
  The sequence of Newton-Raphson estimates: \<open>NR_continues\<close> relates an estimate to the
  next one when the loop goes round again, \<open>NR_ends\<close> holds of the estimate from which the
  loop leaves, with the value or the fault it leaves with.
\<close>

definition NR_continues :: "config \<Rightarrow> bool \<Rightarrow> real \<Rightarrow> real \<Rightarrow> real \<Rightarrow> bool" where
  "NR_continues c ip lnVP T T' \<longleftrightarrow> NR_step c ip lnVP T = Inr T' \<and> \<not> \<bar>T' - T\<bar> \<le> TOL c"

definition NR_ends :: "config \<Rightarrow> bool \<Rightarrow> real \<Rightarrow> real \<Rightarrow> real res \<Rightarrow> bool" where
  "NR_ends c ip lnVP Tprev r =
     (case r of
        Inl e \<Rightarrow> NR_step c ip lnVP Tprev = Inl e
      | Inr Tlast \<Rightarrow> NR_step c ip lnVP Tprev = Inr Tlast \<and> \<bar>Tlast - Tprev\<bar> \<le> TOL c)"

text \<open>
  Inputs of the worked example in SI units: the saturation vapor pressure at
  \<open>25.0005\<close> \<^verbatim>\<open>C\<close>, as \<^verbatim>\<open>GetSatVapPres(25.0005)\<close> returns it, and the humidity ratio
  that \<^verbatim>\<open>GetHumRatioFromTDewPoint(25.0005, 101325)\<close> returns.
\<close>

definition example_VapPres :: real where
  "example_VapPres = exp (LnPws_SI_water 298.1505)"

definition example_HumRatio :: real where
  "example_HumRatio = 0.621945 * example_VapPres / (101325 - example_VapPres)"

text \<open>
  Inputs of a second worked example in SI units, in which the Newton-Raphson loop takes
  two passes and the bisection ten: the saturation vapor pressure at \<open>-99.9999\<close> \<^verbatim>\<open>C\<close> and
  the humidity ratio that \<^verbatim>\<open>GetHumRatioFromTDewPoint(-99.9999, 101325)\<close> returns.
\<close>

definition cold_VapPres :: real where
  "cold_VapPres = exp (LnPws_SI_ice 173.1501)"

definition cold_HumRatio :: real where
  "cold_HumRatio = 0.621945 * cold_VapPres / (101325 - cold_VapPres)"

section \<open>Properties\<close>

subsection \<open>Configuration and saturation vapor pressure\<close>

lemma GetTRankineFromTFahrenheit_pos:
  "- 148 \<le> TDryBulb \<Longrightarrow> 0 < GetTRankineFromTFahrenheit TDryBulb"
  by (simp add: GetTRankineFromTFahrenheit_def)

lemma GetTKelvinFromTCelsius_pos:
  "- 100 \<le> TDryBulb \<Longrightarrow> 0 < GetTKelvinFromTCelsius TDryBulb"
  by (simp add: GetTKelvinFromTCelsius_def)

lemma isIP_unset:
  "UNITS c = None \<Longrightarrow> isIP c = Inl (ValueError ''The system of units has not been defined.'')"
  by (simp add: isIP_def)

lemma isIP_Inr_iff: "isIP c = Inr ip \<longleftrightarrow> UNITS c = Some (if ip then IP else SI)"
  by (cases "UNITS c"; cases ip; auto simp: isIP_def)

lemma isIP_config_SI: "isIP config_SI = Inr False"
  by (simp add: isIP_def config_SI_def)

lemma SetUnitSystem_SI: "SetUnitSystem (UnitSystemObject SI) initial_config = Inr config_SI"
  by (simp add: SetUnitSystem_def initial_config_def config_SI_def)

lemma SetUnitSystem_IP: "SetUnitSystem (UnitSystemObject IP) initial_config = Inr config_IP"
  by (simp add: SetUnitSystem_def initial_config_def config_IP_def)

lemma GetSatVapPres_pos: "GetSatVapPres c T = Inr p \<Longrightarrow> 0 < p"
  by (auto simp: GetSatVapPres_def Let_def split: sum.splits bool.splits if_splits)

lemma GetSatVapPres_valid:
  "valid_TDryBulb c T \<Longrightarrow> \<exists>p. GetSatVapPres c T = Inr p \<and> 0 < p"
  by (auto simp: valid_TDryBulb_def GetSatVapPres_def isIP_def Let_def
           split: option.splits UnitSystem.splits)


lemma GetSatVapPres_fault:
  "GetSatVapPres c T = Inl e \<Longrightarrow> e \<noteq> (ValueError ''Partial pressure of water vapor is outside range of validity of equations'')"
  by (auto simp: GetSatVapPres_def isIP_def Let_def split: if_splits)

lemma valid_TDryBulb_BOUNDS:
  "isIP c = Inr ip \<Longrightarrow>
   valid_TDryBulb c T \<longleftrightarrow> fst (BOUNDS ip) \<le> T \<and> T \<le> snd (BOUNDS ip)"
  by (auto simp: isIP_Inr_iff valid_TDryBulb_def BOUNDS_def)

lemma GetSatVapPres_SI_water:
  "0 < T \<Longrightarrow> T \<le> 200 \<Longrightarrow>
   GetSatVapPres config_SI T = Inr (exp (LnPws_SI_water (T + 273.15)))"
  by (simp add: GetSatVapPres_def isIP_config_SI GetTKelvinFromTCelsius_def)

lemma GetSatVapPres_SI_lo:
  "GetSatVapPres config_SI (- 100) = Inr (exp (LnPws_SI_ice 173.15))"
  by (simp add: GetSatVapPres_def isIP_config_SI GetTKelvinFromTCelsius_def)

lemma GetSatVapPres_SI_hi:
  "GetSatVapPres config_SI 200 = Inr (exp (LnPws_SI_water 473.15))"
  using GetSatVapPres_SI_water[of 200] by simp

lemma GetSatVapPres_SI_25: "GetSatVapPres config_SI 25 = Inr (exp (LnPws_SI_water 298.15))"
  using GetSatVapPres_SI_water[of 25] by simp

lemma GetSatVapPres_SI_example:
  "GetSatVapPres config_SI 25.0005 = Inr example_VapPres"
  using GetSatVapPres_SI_water[of "25.0005"] by (simp add: example_VapPres_def)

subsection \<open>The bisection loop\<close>

text \<open>
  With the midpoint as third variable, every pass halves the interval; a width of at
  most \<open>2 ^ n\<close> tolerances is used up after at most \<open>n\<close> passes.
\<close>

lemma bisection_loop_terminates_within:
  assumes "0 < TOL c"
  shows "TWetBulbSup - TWetBulbInf \<le> 2 ^ n * TOL c \<Longrightarrow>
         \<exists>r. bisection_loop c TDryBulb HumRatio Pressure TWetBulbSup TWetBulbInf
               ((TWetBulbSup + TWetBulbInf) / 2) = Some r"
proof (induction n arbitrary: TWetBulbSup TWetBulbInf)
  case 0
  then show ?case by (subst bisection_loop.simps) simp
next
  case (Suc n)
  let ?m = "(TWetBulbSup + TWetBulbInf) / 2"
  have up: "?m - TWetBulbInf \<le> 2 ^ n * TOL c"
    and lo: "TWetBulbSup - ?m \<le> 2 ^ n * TOL c"
    using Suc.prems by (simp_all add: field_simps)
  from Suc.IH[OF up] Suc.IH[OF lo] show ?case
    by (subst bisection_loop.simps) (auto split: sum.splits)
qed

lemma bisection_loop_terminates:
  assumes "0 < TOL c"
  shows "\<exists>r. bisection_loop c TDryBulb HumRatio Pressure TWetBulbSup TWetBulbInf
               ((TWetBulbSup + TWetBulbInf) / 2) = Some r"
proof -
  obtain n where "(TWetBulbSup - TWetBulbInf) / TOL c < 2 ^ n"
    using real_arch_pow[of 2 "(TWetBulbSup - TWetBulbInf) / TOL c"] by auto
  with assms have "TWetBulbSup - TWetBulbInf \<le> 2 ^ n * TOL c"
    by (simp add: field_simps)
  then show ?thesis by (rule bisection_loop_terminates_within[OF assms])
qed

lemma bisection_spec_loop:
  "bisection_spec c TDryBulb HumRatio Pressure lower upper r \<Longrightarrow>
   bisection_loop c TDryBulb HumRatio Pressure upper lower ((lower + upper) / 2) = Some r"
proof (induction rule: bisection_spec.induct)
  case (narrow_enough upper lower)
  then show ?case by (subst bisection_loop.simps) simp
next
  case (midpoint_fault upper lower e)
  then show ?case by (subst bisection_loop.simps) simp
next
  case (new_upper upper lower Wstar r)
  then show ?case by (subst bisection_loop.simps) (simp add: add.commute)
next
  case (new_lower upper lower Wstar r)
  then show ?case by (subst bisection_loop.simps) (simp add: add.commute)
qed

lemma bisection_loop_spec:
  assumes "bisection_loop c TDryBulb HumRatio Pressure upper lower m = Some r"
  shows "m = (lower + upper) / 2 \<longrightarrow> bisection_spec c TDryBulb HumRatio Pressure lower upper r"
proof (rule bisection_loop.raw_induct[where P = "\<lambda>c TDryBulb HumRatio Pressure upper lower m r.
         m = (lower + upper) / 2 \<longrightarrow> bisection_spec c TDryBulb HumRatio Pressure lower upper r",
       OF _ assms])
  fix loop c TDryBulb HumRatio Pressure upper lower m r
  assume IH: "\<And>c TDryBulb HumRatio Pressure upper lower m r.
           loop c TDryBulb HumRatio Pressure upper lower m = Some r \<Longrightarrow>
           m = (lower + upper) / 2 \<longrightarrow> bisection_spec c TDryBulb HumRatio Pressure lower upper r"
    and body0: "(if TOL c < upper - lower
          then case GetHumRatioFromTWetBulb c TDryBulb m Pressure of
                 Inl e \<Rightarrow> Some (Inl e)
               | Inr Wstar \<Rightarrow>
                   if HumRatio < Wstar
                   then loop c TDryBulb HumRatio Pressure m lower ((m + lower) / 2)
                   else loop c TDryBulb HumRatio Pressure upper m ((upper + m) / 2)
          else Some (Inr m)) = Some r"
  show "m = (lower + upper) / 2 \<longrightarrow> bisection_spec c TDryBulb HumRatio Pressure lower upper r"
  proof
    assume m: "m = (lower + upper) / 2"
    let ?mid = "(lower + upper) / 2"
    note body = body0[unfolded m]
    show "bisection_spec c TDryBulb HumRatio Pressure lower upper r"
    proof (cases "TOL c < upper - lower")
      case False
      with body have "r = Inr ?mid" by simp
      with False show ?thesis by (simp add: bisection_spec.narrow_enough)
    next
      case wide: True
      show ?thesis
      proof (cases "GetHumRatioFromTWetBulb c TDryBulb ?mid Pressure")
        case (Inl e)
        with body wide have "r = Inl e" by simp
        with wide Inl show ?thesis by (simp add: bisection_spec.midpoint_fault)
      next
        case (Inr Wstar)
        show ?thesis
        proof (cases "HumRatio < Wstar")
          case True
          with body wide Inr
          have "loop c TDryBulb HumRatio Pressure ?mid lower ((?mid + lower) / 2) = Some r"
            by simp
          from IH[OF this] have "bisection_spec c TDryBulb HumRatio Pressure lower ?mid r"
            by (simp add: add.commute)
          with wide Inr True show ?thesis by (rule bisection_spec.new_upper)
        next
          case False
          with body wide Inr
          have "loop c TDryBulb HumRatio Pressure upper ?mid ((upper + ?mid) / 2) = Some r"
            by simp
          from IH[OF this] have "bisection_spec c TDryBulb HumRatio Pressure ?mid upper r"
            by (simp add: add.commute)
          with wide Inr False show ?thesis by (rule bisection_spec.new_lower)
        qed
      qed
    qed
  qed
qed

subsection \<open>The Newton-Raphson loop\<close>

lemma NR_step_clamped:
  "NR_step c ip lnVP T = Inr T' \<Longrightarrow> fst (BOUNDS ip) \<le> T' \<and> T' \<le> snd (BOUNDS ip)"
  by (auto simp: NR_step_def Let_def BOUNDS_def split: sum.splits if_splits)


lemma NR_loop_trace:
  assumes "NR_loop c ip lnVP T0 = Some res"
  shows "\<exists>Tprev. (NR_continues c ip lnVP)\<^sup>*\<^sup>* T0 Tprev \<and> NR_ends c ip lnVP Tprev res"
proof (rule NR_loop.raw_induct[where P = "\<lambda>c ip lnVP T0 res.
         \<exists>Tprev. (NR_continues c ip lnVP)\<^sup>*\<^sup>* T0 Tprev \<and> NR_ends c ip lnVP Tprev res",
       OF _ assms])
  fix loop c ip lnVP T0 res
  assume IH: "\<And>c ip lnVP T0 res. loop c ip lnVP T0 = Some res \<Longrightarrow>
           \<exists>Tprev. (NR_continues c ip lnVP)\<^sup>*\<^sup>* T0 Tprev \<and> NR_ends c ip lnVP Tprev res"
    and body: "(case NR_step c ip lnVP T0 of
          Inl e \<Rightarrow> Some (Inl e)
        | Inr T1 \<Rightarrow> if \<bar>T1 - T0\<bar> \<le> TOL c then Some (Inr T1) else loop c ip lnVP T1) = Some res"
  show "\<exists>Tprev. (NR_continues c ip lnVP)\<^sup>*\<^sup>* T0 Tprev \<and> NR_ends c ip lnVP Tprev res"
  proof (cases "NR_step c ip lnVP T0")
    case (Inl e)
    with body have "res = Inl e" by simp
    with Inl have "NR_ends c ip lnVP T0 res" by (simp add: NR_ends_def)
    then show ?thesis by blast
  next
    case (Inr T1)
    show ?thesis
    proof (cases "\<bar>T1 - T0\<bar> \<le> TOL c")
      case True
      with body Inr have "res = Inr T1" by simp
      with Inr True have "NR_ends c ip lnVP T0 res" by (simp add: NR_ends_def)
      then show ?thesis by blast
    next
      case False
      with body Inr have "loop c ip lnVP T1 = Some res" by simp
      from IH[OF this] obtain Tprev where
        tr: "(NR_continues c ip lnVP)\<^sup>*\<^sup>* T1 Tprev" and fin: "NR_ends c ip lnVP Tprev res"
        by blast
      from Inr False have "NR_continues c ip lnVP T0 T1" by (simp add: NR_continues_def)
      then have "(NR_continues c ip lnVP)\<^sup>*\<^sup>* T0 Tprev"
        using tr by (rule converse_rtranclp_into_rtranclp)
      with fin show ?thesis by blast
    qed
  qed
qed

subsection \<open>Numerical bounds\<close>

text \<open>
  Bounds on \<^term>\<open>exp\<close> at a few rational points, by repeated squaring from the quadratic
  Taylor bounds, and the comparisons of \<^verbatim>\<open>LnPws\<close> values that the worked examples need.
\<close>

lemma exp_double_lower:
  "a \<le> exp x \<Longrightarrow> 0 \<le> a \<Longrightarrow> b \<le> a * a \<Longrightarrow> b \<le> exp (2 * x)" for a b x :: real
proof -
  assume a: "a \<le> exp x" "0 \<le> a" and b: "b \<le> a * a"
  from a have "a * a \<le> exp x * exp x" by (intro mult_mono) auto
  with b show ?thesis by (simp add: exp_double power2_eq_square)
qed

lemma exp_double_upper:
  "exp x \<le> a \<Longrightarrow> a * a \<le> b \<Longrightarrow> exp (2 * x) \<le> b" for a b x :: real
proof -
  assume a: "exp x \<le> a" and b: "a * a \<le> b"
  have "0 \<le> exp x" by simp
  with a have "0 \<le> a" by linarith
  with a have "exp x * exp x \<le> a * a" by (intro mult_mono) auto
  with b show ?thesis by (simp add: exp_double power2_eq_square)
qed

lemma exp_lower_572: "(299::real) \<le> exp (143 / 25)"
proof -
  have e0: "(1.09336894::real) \<le> exp (143 / 1600)"
    using exp_lower_Taylor_quadratic[of "143 / 1600"] by (simp add: power2_eq_square)
  have e1: "(1.19545563::real) \<le> exp (143 / 800)"
    using exp_double_lower[OF e0, of "1.19545563"] by simp
  have e2: "(1.42911416::real) \<le> exp (143 / 400)"
    using exp_double_lower[OF e1, of "1.42911416"] by simp
  have e3: "(2.04236728::real) \<le> exp (143 / 200)"
    using exp_double_lower[OF e2, of "2.04236728"] by simp
  have e4: "(4.1712641::real) \<le> exp (143 / 100)"
    using exp_double_lower[OF e3, of "4.1712641"] by simp
  have e5: "(17.39944419::real) \<le> exp (143 / 50)"
    using exp_double_lower[OF e4, of "17.39944419"] by simp
  have e6: "(302.74065812::real) \<le> exp (143 / 25)"
    using exp_double_lower[OF e5, of "302.74065812"] by simp
  from e6 show ?thesis by simp
qed

lemma exp_upper_821: "exp (821 / 100) \<le> (4200::real)"
proof -
  have e0: "exp (821 / 25600) \<le> (1.03309882::real)"
    using exp_bound[of "821 / 25600"] by (simp add: power2_eq_square)
  have e1: "exp (821 / 12800) \<le> (1.06729318::real)"
    using exp_double_upper[OF e0, of "1.06729318"] by simp
  have e2: "exp (821 / 6400) \<le> (1.13911474::real)"
    using exp_double_upper[OF e1, of "1.13911474"] by simp
  have e3: "exp (821 / 3200) \<le> (1.2975824::real)"
    using exp_double_upper[OF e2, of "1.2975824"] by simp
  have e4: "exp (821 / 1600) \<le> (1.68372009::real)"
    using exp_double_upper[OF e3, of "1.68372009"] by simp
  have e5: "exp (821 / 800) \<le> (2.83491335::real)"
    using exp_double_upper[OF e4, of "2.83491335"] by simp
  have e6: "exp (821 / 400) \<le> (8.03673371::real)"
    using exp_double_upper[OF e5, of "8.03673371"] by simp
  have e7: "exp (821 / 200) \<le> (64.58908873::real)"
    using exp_double_upper[OF e6, of "64.58908873"] by simp
  have e8: "exp (821 / 100) \<le> (4171.75038298::real)"
    using exp_double_upper[OF e7, of "4171.75038298"] by simp
  from e8 show ?thesis by simp
qed

lemma exp_lower_7: "(1000::real) \<le> exp 7"
proof -
  have e0: "(1.11535644::real) \<le> exp (7 / 64)"
    using exp_lower_Taylor_quadratic[of "7 / 64"] by (simp add: power2_eq_square)
  have e1: "(1.24401998::real) \<le> exp (7 / 32)"
    using exp_double_lower[OF e0, of "1.24401998"] by simp
  have e2: "(1.54758571::real) \<le> exp (7 / 16)"
    using exp_double_lower[OF e1, of "1.54758571"] by simp
  have e3: "(2.39502152::real) \<le> exp (7 / 8)"
    using exp_double_lower[OF e2, of "2.39502152"] by simp
  have e4: "(5.73612808::real) \<le> exp (7 / 4)"
    using exp_double_lower[OF e3, of "5.73612808"] by simp
  have e5: "(32.90316535::real) \<le> exp (7 / 2)"
    using exp_double_lower[OF e4, of "32.90316535"] by simp
  have e6: "(1082.61829004::real) \<le> exp 7"
    using exp_double_lower[OF e5, of "1082.61829004"] by simp
  from e6 show ?thesis by simp
qed

lemma exp_upper_55: "exp (11 / 2) \<le> (473::real)"
proof -
  have e0: "exp (11 / 128) \<le> (1.09332276::real)"
    using exp_bound[of "11 / 128"] by (simp add: power2_eq_square)
  have e1: "exp (11 / 64) \<le> (1.19535466::real)"
    using exp_double_upper[OF e0, of "1.19535466"] by simp
  have e2: "exp (11 / 32) \<le> (1.42887277::real)"
    using exp_double_upper[OF e1, of "1.42887277"] by simp
  have e3: "exp (11 / 16) \<le> (2.0416774::real)"
    using exp_double_upper[OF e2, of "2.0416774"] by simp
  have e4: "exp (11 / 8) \<le> (4.16844661::real)"
    using exp_double_upper[OF e3, of "4.16844661"] by simp
  have e5: "exp (11 / 4) \<le> (17.37594715::real)"
    using exp_double_upper[OF e4, of "17.37594715"] by simp
  have e6: "exp (11 / 2) \<le> (301.92353936::real)"
    using exp_double_upper[OF e5, of "301.92353936"] by simp
  from e6 show ?thesis by simp
qed

lemma ln_le_572: "0 < x \<Longrightarrow> x \<le> 299 \<Longrightarrow> ln x \<le> 5.72" for x :: real
proof -
  assume x: "0 < x" "x \<le> 299"
  then have "x \<le> exp 5.72" using exp_lower_572 by simp
  then have "ln x \<le> ln (exp 5.72)" using x by (intro ln_mono) auto
  then show ?thesis by simp
qed

lemma ln_ge_55: "473 \<le> x \<Longrightarrow> 5.5 \<le> ln x" for x :: real
  using exp_upper_55 by (subst ln_ge_iff) auto

lemma ln_ge_1: "3 \<le> x \<Longrightarrow> 1 \<le> ln x" for x :: real
  using exp_le by (subst ln_ge_iff) auto

lemma ln_diff_lower: "0 < x \<Longrightarrow> 0 < y \<Longrightarrow> (x - y) / x \<le> ln x - ln y" for x y :: real
  using ln_diff_le[of y x] by (simp add: field_simps)

lemma LnPws_lo_le: "LnPws_SI_ice 173.15 \<le> LnPws_SI_water 298.1505"
proof -
  define l1 :: real where "l1 = ln 173.15"
  define l2 :: real where "l2 = ln 298.1505"
  have 1: "l1 \<le> l2" unfolding l1_def l2_def by simp
  have 2: "1 \<le> l2" unfolding l2_def by (rule ln_ge_1) simp
  show ?thesis
    unfolding LnPws_SI_ice_def LnPws_SI_water_def l1_def[symmetric] l2_def[symmetric]
    using 1 2 by (simp add: power_divide)
qed

lemma LnPws_le_hi: "LnPws_SI_water 298.1505 \<le> LnPws_SI_water 473.15"
proof -
  define l1 :: real where "l1 = ln 298.1505"
  define l2 :: real where "l2 = ln 473.15"
  have 1: "l1 \<le> l2" unfolding l1_def l2_def by simp
  show ?thesis
    unfolding LnPws_SI_water_def l1_def[symmetric] l2_def[symmetric]
    using 1 by (simp add: power_divide)
qed

lemma LnPws_lo_nonpos: "LnPws_SI_ice 173.15 \<le> 0"
proof -
  have 1: "ln (173.15::real) \<le> 5.72" by (intro ln_le_572) auto
  show ?thesis unfolding LnPws_SI_ice_def using 1 by (simp add: power_divide)
qed

lemma LnPws_hi_ge_7: "7 \<le> LnPws_SI_water 473.15"
proof -
  have 1: "5.5 \<le> ln (473.15::real)" by (intro ln_ge_55) auto
  show ?thesis unfolding LnPws_SI_water_def using 1 by (simp add: power_divide)
qed

lemma LnPws_25_upper: "LnPws_SI_water 298.15 \<le> 8.21"
proof -
  have 1: "ln (298.15::real) \<le> 5.72" by (intro ln_le_572) auto
  show ?thesis unfolding LnPws_SI_water_def using 1 by (simp add: power_divide)
qed

lemma LnPws_example_upper: "LnPws_SI_water 298.1505 \<le> 8.21"
proof -
  have 1: "ln (298.1505::real) \<le> 5.72" by (intro ln_le_572) auto
  show ?thesis unfolding LnPws_SI_water_def using 1 by (simp add: power_divide)
qed

text \<open>
  The three facts behind the single Newton-Raphson step of the worked example: from
  \<open>25\<close> towards \<open>25.0005\<close>, with the forward difference over \<open>[25, 25.01]\<close>.
\<close>

lemma LnPws_NR_step:
  "0 < LnPws_SI_water 298.1505 - LnPws_SI_water 298.15"
  "0 < LnPws_SI_water 298.16 - LnPws_SI_water 298.15"
  "LnPws_SI_water 298.1505 - LnPws_SI_water 298.15
     \<le> 0.1 * (LnPws_SI_water 298.16 - LnPws_SI_water 298.15)"
proof -
  define a :: real where "a = ln 298.15"
  define b :: real where "b = ln 298.1505"
  define d :: real where "d = ln 298.16"
  have ab: "0.0005 / 298.1505 \<le> b - a"
    unfolding a_def b_def using ln_diff_lower[of "298.1505" "298.15"] by simp
  have ba: "b - a \<le> 0.0005 / 298.15"
    unfolding a_def b_def using ln_diff_le[of "298.1505" "298.15"] by simp
  have da: "0.01 / 298.16 \<le> d - a"
    unfolding a_def d_def using ln_diff_lower[of "298.16" "298.15"] by simp
  show "0 < LnPws_SI_water 298.1505 - LnPws_SI_water 298.15"
    unfolding LnPws_SI_water_def a_def[symmetric] b_def[symmetric]
    using ab by (simp add: power_divide)
  show "0 < LnPws_SI_water 298.16 - LnPws_SI_water 298.15"
    unfolding LnPws_SI_water_def a_def[symmetric] d_def[symmetric]
    using da by (simp add: power_divide)
  show "LnPws_SI_water 298.1505 - LnPws_SI_water 298.15
     \<le> 0.1 * (LnPws_SI_water 298.16 - LnPws_SI_water 298.15)"
    unfolding LnPws_SI_water_def a_def[symmetric] b_def[symmetric] d_def[symmetric]
    using ba da by (simp add: power_divide)
qed

lemma SatVapPres_25_upper: "exp (LnPws_SI_water 298.15) \<le> 4200"
proof -
  have "exp (LnPws_SI_water 298.15) \<le> exp 8.21"
    using LnPws_25_upper by (subst exp_le_cancel_iff)
  also have "\<dots> \<le> 4200" using exp_upper_821 by simp
  finally show ?thesis .
qed

lemma example_VapPres_bounds: "0 < example_VapPres" "example_VapPres \<le> 4200"
proof -
  show "0 < example_VapPres" by (simp add: example_VapPres_def)
  have "exp (LnPws_SI_water 298.1505) \<le> exp 8.21"
    using LnPws_example_upper by (subst exp_le_cancel_iff)
  also have "\<dots> \<le> 4200" using exp_upper_821 by simp
  finally show "example_VapPres \<le> 4200" by (simp add: example_VapPres_def)
qed

lemma SatVapPres_lo_le_1000: "exp (LnPws_SI_ice 173.15) \<le> 1000"
proof -
  have "exp (LnPws_SI_ice 173.15) \<le> 1"
    using LnPws_lo_nonpos by (subst exp_le_one_iff)
  then show ?thesis by linarith
qed

lemma SatVapPres_hi_ge_1000: "1000 \<le> exp (LnPws_SI_water 473.15)"
proof -
  have "1000 \<le> exp (7::real)" by (rule exp_lower_7)
  also have "\<dots> \<le> exp (LnPws_SI_water 473.15)"
    using LnPws_hi_ge_7 by (subst exp_le_cancel_iff)
  finally show ?thesis .
qed

subsection \<open>The worked example\<close>

text \<open>
  SI units, dry bulb \<open>25\<close>, pressure \<open>101325\<close>, and the moisture content of air whose
  dew point is \<open>25.0005\<close>. The Newton-Raphson loop starts at \<open>25\<close> and its first estimate
  is within the tolerance \<open>0.001\<close> of \<open>25\<close>, so it leaves after one pass.
\<close>

lemma example_HumRatio_pos: "0 < example_HumRatio"
  using example_VapPres_bounds by (simp add: example_HumRatio_def)

lemma example_GetHumRatioFromTDewPoint:
  "GetHumRatioFromTDewPoint config_SI 25.0005 101325 = Inr example_HumRatio"
  unfolding GetHumRatioFromTDewPoint_def GetSatVapPres_SI_example
  using example_VapPres_bounds
  by (simp add: GetHumRatioFromVapPres_def py_div_def example_HumRatio_def)

lemma example_GetVapPresFromHumRatio:
  "GetVapPresFromHumRatio example_HumRatio 101325 = Inr example_VapPres"
proof -
  have v: "0 < example_VapPres" "example_VapPres < 101325"
    using example_VapPres_bounds by simp_all
  have W: "0 < example_HumRatio" by (rule example_HumRatio_pos)
  have "101325 * example_HumRatio / (0.621945 + example_HumRatio) = example_VapPres"
    unfolding example_HumRatio_def using v by (simp add: field_simps)
  with W show ?thesis by (simp add: GetVapPresFromHumRatio_def py_div_def)
qed

lemma example_NR_step:
  "\<exists>T1. NR_step config_SI False (LnPws_SI_water 298.1505) 25 = Inr T1 \<and>
        25 \<le> T1 \<and> T1 \<le> 25.001"
proof -
  let ?La = "LnPws_SI_water 298.15" and ?Lb = "LnPws_SI_water 298.1505"
    and ?Ld = "LnPws_SI_water 298.16"
  define x where "x = ?Lb - ?La"
  define y where "y = ?Ld - ?La"
  have xy: "0 < x" "0 < y" "x \<le> 0.1 * y"
    unfolding x_def y_def by (rule LnPws_NR_step)+
  define delta where "delta = (?La - ?Lb) / (y / 0.01)"
  have "?La - ?Lb = - x" unfolding x_def by simp
  then have delta: "delta = - (0.01 * x / y)" unfolding delta_def by simp
  have "0 \<le> 0.01 * x / y" using xy by simp
  moreover have "0.01 * x / y \<le> 0.001" using xy by (simp add: field_simps)
  ultimately have d: "delta \<le> 0" "- 0.001 \<le> delta" unfolding delta by simp_all
  have "NR_step config_SI False ?Lb 25 = Inr (min (max (25 - delta) (- 100)) 200)"
    using xy(2)
    by (simp add: NR_step_def BOUNDS_def STEPSIZE_def GetSatVapPres_SI_water py_log_def
          py_div_def delta_def y_def)
  moreover have "min (max (25 - delta) (- 100)) 200 = 25 - delta" using d by simp
  ultimately show ?thesis using d by simp
qed

lemma example_NR_loop:
  "\<exists>T1. NR_loop config_SI False (LnPws_SI_water 298.1505) 25 = Some (Inr T1) \<and>
        25 \<le> T1 \<and> T1 \<le> 25.001"
proof -
  from example_NR_step obtain T1 where
    T1: "NR_step config_SI False (LnPws_SI_water 298.1505) 25 = Inr T1" "25 \<le> T1" "T1 \<le> 25.001"
    by blast
  have "\<bar>T1 - 25\<bar> \<le> TOL config_SI" using T1(2,3) by (simp add: config_SI_def)
  with T1(1) have "NR_loop config_SI False (LnPws_SI_water 298.1505) 25 = Some (Inr T1)"
    by (subst NR_loop.simps) simp
  with T1 show ?thesis by blast
qed

lemma example_range_check:
  "exp (LnPws_SI_ice 173.15) \<le> example_VapPres"
  "example_VapPres \<le> exp (LnPws_SI_water 473.15)"
  unfolding example_VapPres_def using LnPws_lo_le LnPws_le_hi
  by (simp_all only: exp_le_cancel_iff)

lemma example_GetTDewPointFromVapPres:
  "GetTDewPointFromVapPres config_SI 25 example_VapPres = Some (Inr 25)"
proof -
  from example_NR_loop obtain T1 where
    T1: "NR_loop config_SI False (LnPws_SI_water 298.1505) 25 = Some (Inr T1)" "25 \<le> T1"
    by blast
  have log: "py_log example_VapPres = Inr (LnPws_SI_water 298.1505)"
    by (simp add: py_log_def example_VapPres_def)
  show ?thesis
    using example_range_check T1
    by (simp add: GetTDewPointFromVapPres_def isIP_config_SI BOUNDS_def GetSatVapPres_SI_lo
          GetSatVapPres_SI_hi log)
qed

lemma example_GetTDewPointFromHumRatio:
  "GetTDewPointFromHumRatio config_SI 25 example_HumRatio 101325 = Some (Inr 25)"
  using example_HumRatio_pos
  by (simp add: GetTDewPointFromHumRatio_def example_GetVapPresFromHumRatio
        example_GetTDewPointFromVapPres)

lemma example_bisection_loop:
  "bisection_loop config_SI 25 example_HumRatio 101325 25 25 ((25 + 25) / 2) = Some (Inr 25)"
  by (subst bisection_loop.simps) (simp add: config_SI_def)

lemma example_GetTWetBulbFromHumRatio:
  "GetTWetBulbFromHumRatio config_SI 25 example_HumRatio 101325 = Some (Inr 25)"
  using example_HumRatio_pos example_bisection_loop
  by (simp add: GetTWetBulbFromHumRatio_def example_GetTDewPointFromHumRatio)

lemma example_GetRelHumFromHumRatio:
  "GetRelHumFromHumRatio config_SI 25 example_HumRatio 101325 =
     Inr (example_VapPres / exp (LnPws_SI_water 298.15))"
  unfolding GetRelHumFromHumRatio_def example_GetVapPresFromHumRatio GetRelHumFromVapPres_def
    GetSatVapPres_SI_25
  using example_HumRatio_pos example_VapPres_bounds by (simp add: py_div_def)

lemma example_RelHum_gt_1: "1 < example_VapPres / exp (LnPws_SI_water 298.15)"
proof -
  have "LnPws_SI_water 298.15 < LnPws_SI_water 298.1505"
    using LnPws_NR_step(1) by linarith
  then have "exp (LnPws_SI_water 298.15) < example_VapPres"
    unfolding example_VapPres_def by (subst exp_less_cancel_iff)
  then show ?thesis by simp
qed

lemma example_CalcPsychrometricsFromTDewPoint:
  "\<exists>MoistAirEnthalpy MoistAirVolume DegreeOfSaturation.
     CalcPsychrometricsFromTDewPoint config_SI 25 25.0005 101325 =
       Some (Inr (example_HumRatio, 25, example_VapPres / exp (LnPws_SI_water 298.15),
                  example_VapPres, MoistAirEnthalpy, MoistAirVolume, DegreeOfSaturation))"
proof -
  have W: "0 < example_HumRatio" by (rule example_HumRatio_pos)
  have h: "GetMoistAirEnthalpy config_SI 25 example_HumRatio =
             Inr ((1.006 * 25 + example_HumRatio * (2501 + 1.86 * 25)) * 1000)"
    using W by (simp add: GetMoistAirEnthalpy_def isIP_config_SI)
  have vol: "GetMoistAirVolume config_SI 25 example_HumRatio 101325 =
             Inr (R_DA_SI * GetTKelvinFromTCelsius 25 * (1 + 1.607858 * example_HumRatio) / 101325)"
    using W by (simp add: GetMoistAirVolume_def isIP_config_SI py_div_def)
  let ?ps = "exp (LnPws_SI_water 298.15)"
  have ps: "0 < ?ps" "?ps < 101325" using SatVapPres_25_upper by simp_all
  then have Ws: "GetSatHumRatio config_SI 25 101325 = Inr (0.621945 * ?ps / (101325 - ?ps))"
    unfolding GetSatHumRatio_def GetSatVapPres_SI_25 by (simp add: py_div_def)
  have "0.621945 * ?ps / (101325 - ?ps) \<noteq> 0" using ps by simp
  then have mu: "GetDegreeOfSaturation config_SI 25 example_HumRatio 101325 =
             Inr (example_HumRatio / (0.621945 * ?ps / (101325 - ?ps)))"
    unfolding GetDegreeOfSaturation_def Ws using W by (simp add: py_div_def)
  show ?thesis
    by (simp only: CalcPsychrometricsFromTDewPoint_def example_GetHumRatioFromTDewPoint
      example_GetTWetBulbFromHumRatio example_GetRelHumFromHumRatio
      example_GetVapPresFromHumRatio h vol mu sum.case option.case) blast
qed

subsection \<open>The second worked example\<close>

text \<open>
  SI units, dry bulb \<open>-99\<close>, pressure \<open>101325\<close>, and the moisture content of air whose
  dew point is \<open>-99.9999\<close>. The dew point found lies about one degree below the dry bulb,
  and at every midpoint of the bisection the humidity ratio of
  \<^verbatim>\<open>GetHumRatioFromTWetBulb\<close> is negative, so the lower bound moves each time.
\<close>

lemma exp_lower_52: "(175::real) \<le> exp (26 / 5)"
proof -
  have e0: "(1.08455078::real) \<le> exp (13 / 160)"
    using exp_lower_Taylor_quadratic[of "13 / 160"] by (simp add: power2_eq_square)
  have e1: "(1.17625039::real) \<le> exp (13 / 80)"
    using exp_double_lower[OF e0, of "1.17625039"] by simp
  have e2: "(1.38356497::real) \<le> exp (13 / 40)"
    using exp_double_lower[OF e1, of "1.38356497"] by simp
  have e3: "(1.91425202::real) \<le> exp (13 / 20)"
    using exp_double_lower[OF e2, of "1.91425202"] by simp
  have e4: "(3.66436079::real) \<le> exp (13 / 10)"
    using exp_double_lower[OF e3, of "3.66436079"] by simp
  have e5: "(13.42753999::real) \<le> exp (13 / 5)"
    using exp_double_lower[OF e4, of "13.42753999"] by simp
  have e6: "(180.29883018::real) \<le> exp (26 / 5)"
    using exp_double_lower[OF e5, of "180.29883018"] by simp
  from e6 show ?thesis by simp
qed

lemma ln_le_52: "0 < x \<Longrightarrow> x \<le> 175 \<Longrightarrow> ln x \<le> 5.2" for x :: real
proof -
  assume x: "0 < x" "x \<le> 175"
  then have "x \<le> exp 5.2" using exp_lower_52 by simp
  then have "ln x \<le> ln (exp 5.2)" using x by (intro ln_mono) auto
  then show ?thesis by simp
qed

lemma GetSatVapPres_SI_ice:
  "- 100 \<le> T \<Longrightarrow> T \<le> 0 \<Longrightarrow>
   GetSatVapPres config_SI T = Inr (exp (LnPws_SI_ice (T + 273.15)))"
  by (simp add: GetSatVapPres_def isIP_config_SI GetTKelvinFromTCelsius_def)

lemma LnPws_SI_ice_cold_upper:
  assumes "173.15 \<le> T" and "T \<le> 174.15"
  shows "LnPws_SI_ice T \<le> - 5.72"
proof -
  define u where "u = 1 / T"
  define p2 where "p2 = T ^ 2"
  define p3 where "p3 = T ^ 3"
  define p4 where "p4 = T ^ 4"
  define l where "l = ln T"
  have T: "0 < T" using assms by simp
  have l: "l \<le> 5.2" unfolding l_def using assms T by (intro ln_le_52) auto
  have u: "1 / 174.15 \<le> u" unfolding u_def using assms T by (simp add: field_simps)
  have 2: "p2 \<le> 174.15 ^ 2" unfolding p2_def using assms T by (intro power_mono) auto
  have 3: "p3 \<le> 174.15 ^ 3" unfolding p3_def using assms T by (intro power_mono) auto
  have 4: "0 \<le> p4" unfolding p4_def by simp
  have eq: "LnPws_SI_ice T =
      - 5674.5359 * u + 6.3925247 - 9.677843 / 10 ^ 3 * T + 6.2215701 / 10 ^ 7 * p2
      + 2.0747825 / 10 ^ 9 * p3 - 9.484024 / 10 ^ 13 * p4 + 4.1635019 * l"
    unfolding LnPws_SI_ice_def u_def p2_def p3_def p4_def l_def by simp
  show ?thesis unfolding eq using assms l u 2 3 4 by (simp add: power_divide)
qed

lemma exp_neg_572: "exp (- 5.72) \<le> (1 / 299 :: real)"
proof -
  have "(299::real) \<le> exp 5.72" using exp_lower_572 by simp
  then have "1 / exp 5.72 \<le> (1 / 299 :: real)" by (rule divide_left_mono) simp_all
  moreover have "exp (- 5.72) = 1 / exp (5.72::real)" by (rule exp_minus')
  ultimately show ?thesis by (simp only:)
qed

lemma cold_VapPres_bounds: "0 < cold_VapPres" "cold_VapPres \<le> 1 / 299"
proof -
  show "0 < cold_VapPres" by (simp add: cold_VapPres_def)
  have "LnPws_SI_ice 173.1501 \<le> - 5.72" by (rule LnPws_SI_ice_cold_upper) simp_all
  then have "exp (LnPws_SI_ice 173.1501) \<le> exp (- 5.72)" by (subst exp_le_cancel_iff)
  also have "\<dots> \<le> 1 / 299" by (rule exp_neg_572)
  finally show "cold_VapPres \<le> 1 / 299" by (simp add: cold_VapPres_def)
qed

lemma SatVapPres_cold_upper:
  assumes "- 100 \<le> T" and "T \<le> - 99"
  shows "\<exists>p. GetSatVapPres config_SI T = Inr p \<and> 0 < p \<and> p \<le> 1 / 299"
proof -
  have "LnPws_SI_ice (T + 273.15) \<le> - 5.72"
    using assms by (intro LnPws_SI_ice_cold_upper) simp_all
  then have "exp (LnPws_SI_ice (T + 273.15)) \<le> exp (- 5.72)" by (subst exp_le_cancel_iff)
  also have "\<dots> \<le> 1 / 299" by (rule exp_neg_572)
  finally have "exp (LnPws_SI_ice (T + 273.15)) \<le> 1 / 299" .
  moreover have "GetSatVapPres config_SI T = Inr (exp (LnPws_SI_ice (T + 273.15)))"
    using assms by (intro GetSatVapPres_SI_ice) simp_all
  ultimately show ?thesis by simp
qed

lemma cold_HumRatio_pos: "0 < cold_HumRatio"
  using cold_VapPres_bounds by (simp add: cold_HumRatio_def)

lemma cold_GetVapPresFromHumRatio:
  "GetVapPresFromHumRatio cold_HumRatio 101325 = Inr cold_VapPres"
proof -
  have v: "0 < cold_VapPres" "cold_VapPres < 101325"
    using cold_VapPres_bounds by simp_all
  have W: "0 < cold_HumRatio" by (rule cold_HumRatio_pos)
  have "101325 * cold_HumRatio / (0.621945 + cold_HumRatio) = cold_VapPres"
    unfolding cold_HumRatio_def using v by (simp add: field_simps)
  with W show ?thesis by (simp add: GetVapPresFromHumRatio_def py_div_def)
qed

text \<open>
  The facts behind the two Newton-Raphson passes of the second example: from \<open>-99\<close> the
  first estimate falls below \<open>-100\<close> and is clamped, from \<open>-100\<close> the second one is
  within the tolerance.
\<close>

lemma LnPws_cold_pass1:
  "0 < LnPws_SI_ice 174.16 - LnPws_SI_ice 174.15"
  "100 * (LnPws_SI_ice 174.16 - LnPws_SI_ice 174.15)
     \<le> LnPws_SI_ice 174.15 - LnPws_SI_ice 173.1501"
proof -
  define a :: real where "a = ln 174.15"
  define b :: real where "b = ln 173.1501"
  define d :: real where "d = ln 174.16"
  have ab: "0.9999 / 174.15 \<le> a - b"
    unfolding a_def b_def using ln_diff_lower[of "174.15" "173.1501"] by simp
  have da: "0.01 / 174.16 \<le> d - a"
    unfolding a_def d_def using ln_diff_lower[of "174.16" "174.15"] by simp
  have da': "d - a \<le> 0.01 / 174.15"
    unfolding a_def d_def using ln_diff_le[of "174.16" "174.15"] by simp
  show "0 < LnPws_SI_ice 174.16 - LnPws_SI_ice 174.15"
    unfolding LnPws_SI_ice_def a_def[symmetric] d_def[symmetric]
    using da by (simp add: power_divide)
  show "100 * (LnPws_SI_ice 174.16 - LnPws_SI_ice 174.15)
     \<le> LnPws_SI_ice 174.15 - LnPws_SI_ice 173.1501"
    unfolding LnPws_SI_ice_def a_def[symmetric] b_def[symmetric] d_def[symmetric]
    using ab da' by (simp add: power_divide)
qed

lemma LnPws_cold_pass2:
  "0 < LnPws_SI_ice 173.1501 - LnPws_SI_ice 173.15"
  "0 < LnPws_SI_ice 173.16 - LnPws_SI_ice 173.15"
  "LnPws_SI_ice 173.1501 - LnPws_SI_ice 173.15
     \<le> 0.1 * (LnPws_SI_ice 173.16 - LnPws_SI_ice 173.15)"
proof -
  define a :: real where "a = ln 173.15"
  define b :: real where "b = ln 173.1501"
  define d :: real where "d = ln 173.16"
  have ab: "0.0001 / 173.1501 \<le> b - a"
    unfolding a_def b_def using ln_diff_lower[of "173.1501" "173.15"] by simp
  have ba: "b - a \<le> 0.0001 / 173.15"
    unfolding a_def b_def using ln_diff_le[of "173.1501" "173.15"] by simp
  have da: "0.01 / 173.16 \<le> d - a"
    unfolding a_def d_def using ln_diff_lower[of "173.16" "173.15"] by simp
  show "0 < LnPws_SI_ice 173.1501 - LnPws_SI_ice 173.15"
    unfolding LnPws_SI_ice_def a_def[symmetric] b_def[symmetric]
    using ab by (simp add: power_divide)
  show "0 < LnPws_SI_ice 173.16 - LnPws_SI_ice 173.15"
    unfolding LnPws_SI_ice_def a_def[symmetric] d_def[symmetric]
    using da by (simp add: power_divide)
  show "LnPws_SI_ice 173.1501 - LnPws_SI_ice 173.15
     \<le> 0.1 * (LnPws_SI_ice 173.16 - LnPws_SI_ice 173.15)"
    unfolding LnPws_SI_ice_def a_def[symmetric] b_def[symmetric] d_def[symmetric]
    using ba da by (simp add: power_divide)
qed


lemma cold_NR_step1:
  "NR_step config_SI False (LnPws_SI_ice 173.1501) (- 99) = Inr (- 100)"
proof -
  let ?La = "LnPws_SI_ice 174.15" and ?Lb = "LnPws_SI_ice 173.1501"
    and ?Ld = "LnPws_SI_ice 174.16"
  define x where "x = ?La - ?Lb"
  define y where "y = ?Ld - ?La"
  have xy: "0 < y" "100 * y \<le> x"
    unfolding x_def y_def by (rule LnPws_cold_pass1)+
  define delta where "delta = x / (y / 0.01)"
  have "delta = x / (100 * y)" unfolding delta_def by simp
  also have "1 \<le> x / (100 * y)" using xy by (simp add: field_simps)
  finally have d: "1 \<le> delta" .
  have "NR_step config_SI False ?Lb (- 99) = Inr (min (max (- 99 - delta) (- 100)) 200)"
    using xy(1)
    by (simp add: NR_step_def BOUNDS_def STEPSIZE_def GetSatVapPres_SI_ice py_log_def
          py_div_def delta_def x_def y_def)
  moreover have "min (max (- 99 - delta) (- 100)) 200 = - 100" using d by simp
  ultimately show ?thesis by simp
qed

lemma cold_NR_step2:
  "\<exists>T2. NR_step config_SI False (LnPws_SI_ice 173.1501) (- 100) = Inr T2 \<and>
        - 100 \<le> T2 \<and> T2 \<le> - 99.999"
proof -
  let ?La = "LnPws_SI_ice 173.15" and ?Lb = "LnPws_SI_ice 173.1501"
    and ?Ld = "LnPws_SI_ice 173.16"
  define x where "x = ?Lb - ?La"
  define y where "y = ?Ld - ?La"
  have xy: "0 < x" "0 < y" "x \<le> 0.1 * y"
    unfolding x_def y_def by (rule LnPws_cold_pass2)+
  define delta where "delta = (?La - ?Lb) / (y / 0.01)"
  have "?La - ?Lb = - x" unfolding x_def by simp
  then have delta: "delta = - (0.01 * x / y)" unfolding delta_def by simp
  have "0 \<le> 0.01 * x / y" using xy by simp
  moreover have "0.01 * x / y \<le> 0.001" using xy by (simp add: field_simps)
  ultimately have d: "delta \<le> 0" "- 0.001 \<le> delta" unfolding delta by simp_all
  have "NR_step config_SI False ?Lb (- 100) = Inr (min (max (- 100 - delta) (- 100)) 200)"
    using xy(2)
    by (simp add: NR_step_def BOUNDS_def STEPSIZE_def GetSatVapPres_SI_ice py_log_def
          py_div_def delta_def y_def)
  moreover have "min (max (- 100 - delta) (- 100)) 200 = - 100 - delta" using d by simp
  moreover have "- 100 \<le> - 100 - delta" "- 100 - delta \<le> - 99.999"
    using d by (simp_all add: field_simps)
  ultimately show ?thesis by simp
qed

lemma cold_NR_loop:
  "\<exists>T2. NR_loop config_SI False (LnPws_SI_ice 173.1501) (- 99) = Some (Inr T2) \<and>
        - 100 \<le> T2 \<and> T2 \<le> - 99.999"
proof -
  from cold_NR_step2 obtain T2 where
    T2: "NR_step config_SI False (LnPws_SI_ice 173.1501) (- 100) = Inr T2"
        "- 100 \<le> T2" "T2 \<le> - 99.999"
    by blast
  have "\<bar>T2 - (- 100)\<bar> \<le> TOL config_SI" using T2(2,3) by (simp add: config_SI_def)
  with T2(1) have 2: "NR_loop config_SI False (LnPws_SI_ice 173.1501) (- 100) = Some (Inr T2)"
    by (subst NR_loop.simps) simp
  have "\<not> \<bar>- 100 - (- 99)\<bar> \<le> TOL config_SI" by (simp add: config_SI_def)
  with cold_NR_step1 2
  have "NR_loop config_SI False (LnPws_SI_ice 173.1501) (- 99) = Some (Inr T2)"
    by (subst NR_loop.simps) simp
  with T2 show ?thesis by blast
qed

lemma cold_range_check:
  "exp (LnPws_SI_ice 173.15) \<le> cold_VapPres"
  "cold_VapPres \<le> exp (LnPws_SI_water 473.15)"
proof -
  have "LnPws_SI_ice 173.15 \<le> LnPws_SI_ice 173.1501"
    using LnPws_cold_pass2(1) by linarith
  then show "exp (LnPws_SI_ice 173.15) \<le> cold_VapPres"
    unfolding cold_VapPres_def by (subst exp_le_cancel_iff)
  have "cold_VapPres \<le> 1000" using cold_VapPres_bounds(2) by linarith
  with SatVapPres_hi_ge_1000 show "cold_VapPres \<le> exp (LnPws_SI_water 473.15)"
    by linarith
qed

lemma cold_GetTDewPointFromVapPres:
  "\<exists>d. GetTDewPointFromVapPres config_SI (- 99) cold_VapPres = Some (Inr d) \<and>
       - 100 \<le> d \<and> d \<le> - 99.999"
proof -
  from cold_NR_loop obtain T2 where
    T2: "NR_loop config_SI False (LnPws_SI_ice 173.1501) (- 99) = Some (Inr T2)"
        "- 100 \<le> T2" "T2 \<le> - 99.999"
    by blast
  have log: "py_log cold_VapPres = Inr (LnPws_SI_ice 173.1501)"
    by (simp add: py_log_def cold_VapPres_def)
  have "GetTDewPointFromVapPres config_SI (- 99) cold_VapPres = Some (Inr T2)"
    using cold_range_check T2
    by (simp add: GetTDewPointFromVapPres_def isIP_config_SI BOUNDS_def GetSatVapPres_SI_lo
          GetSatVapPres_SI_hi log)
  with T2 show ?thesis by blast
qed

lemma cold_GetTDewPointFromHumRatio:
  "\<exists>d. GetTDewPointFromHumRatio config_SI (- 99) cold_HumRatio 101325 = Some (Inr d) \<and>
       - 100 \<le> d \<and> d \<le> - 99.999"
  using cold_HumRatio_pos cold_GetTDewPointFromVapPres
  by (simp add: GetTDewPointFromHumRatio_def cold_GetVapPresFromHumRatio)

lemma cold_GetHumRatioFromTWetBulb:
  assumes "- 100 \<le> TWetBulb" and "TWetBulb \<le> - 99.0005"
  shows "\<exists>Wstar. GetHumRatioFromTWetBulb config_SI (- 99) TWetBulb 101325 = Inr Wstar \<and>
           Wstar < 0"
proof -
  from SatVapPres_cold_upper[of TWetBulb] assms obtain p where
    p: "GetSatVapPres config_SI TWetBulb = Inr p" "0 < p" "p \<le> 1 / 299"
    by auto
  define Ws where "Ws = 0.621945 * p / (101325 - p)"
  have Ws: "0 \<le> Ws" "Ws \<le> 1 / 10 ^ 7"
    unfolding Ws_def using p(2,3) by (simp_all add: field_simps)
  have sat: "GetSatHumRatio config_SI TWetBulb 101325 = Inr Ws"
    using p by (simp add: GetSatHumRatio_def py_div_def Ws_def)
  have "(2830 - 0.24 * TWetBulb) * Ws \<le> 2854 * (1 / 10 ^ 7)"
    using assms Ws by (intro mult_mono) simp_all
  then have num: "(2830 - 0.24 * TWetBulb) * Ws - 1.006 * (- 99 - TWetBulb) < 0"
    using assms by simp
  have den: "0 < 2830 + 1.86 * (- 99) - 2.1 * TWetBulb" using assms by simp
  from num den have
    "((2830 - 0.24 * TWetBulb) * Ws - 1.006 * (- 99 - TWetBulb))
       / (2830 + 1.86 * (- 99) - 2.1 * TWetBulb) < 0"
    by (rule divide_neg_pos)
  moreover have "GetHumRatioFromTWetBulb config_SI (- 99) TWetBulb 101325 =
      Inr (((2830 - 0.24 * TWetBulb) * Ws - 1.006 * (- 99 - TWetBulb))
       / (2830 + 1.86 * (- 99) - 2.1 * TWetBulb))"
    unfolding GetHumRatioFromTWetBulb_def sat
    using assms den by (simp add: isIP_config_SI py_div_def)
  ultimately show ?thesis by simp
qed

lemma cold_bisection_loop:
  "- 100 \<le> lower \<Longrightarrow> lower \<le> - 99 \<Longrightarrow> - 99 - lower \<le> 2 ^ n * TOL config_SI \<Longrightarrow>
   \<exists>r. bisection_loop config_SI (- 99) cold_HumRatio 101325 (- 99) lower
         ((- 99 + lower) / 2) = Some (Inr r) \<and>
       lower \<le> r \<and> r \<le> - 99 \<and> - 99 - r \<le> 0.0005"
proof (induction n arbitrary: lower)
  case 0
  let ?m = "(- 99 + lower) / 2"
  from 0 have "bisection_loop config_SI (- 99) cold_HumRatio 101325 (- 99) lower ?m
      = Some (Inr ?m)"
    by (subst bisection_loop.simps) simp
  moreover have "lower \<le> ?m" "?m \<le> - 99" "- 99 - ?m \<le> 0.0005"
    using 0 by (simp_all add: config_SI_def field_simps)
  ultimately show ?case by blast
next
  case (Suc n)
  let ?m = "(- 99 + lower) / 2"
  show ?case
  proof (cases "TOL config_SI < - 99 - lower")
    case False
    then have "bisection_loop config_SI (- 99) cold_HumRatio 101325 (- 99) lower ?m
        = Some (Inr ?m)"
      by (subst bisection_loop.simps) simp
    moreover have "lower \<le> ?m" "?m \<le> - 99" "- 99 - ?m \<le> 0.0005"
      using False Suc.prems by (simp_all add: config_SI_def field_simps)
    ultimately show ?thesis by blast
  next
    case True
    then have m: "- 100 \<le> ?m" "?m \<le> - 99.0005" "?m \<le> - 99"
      using Suc.prems by (simp_all add: config_SI_def)
    from cold_GetHumRatioFromTWetBulb[OF m(1,2)] obtain Wstar where
      W: "GetHumRatioFromTWetBulb config_SI (- 99) ?m 101325 = Inr Wstar" "Wstar < 0"
      by blast
    have nW: "\<not> cold_HumRatio < Wstar" using W(2) cold_HumRatio_pos by simp
    have "- 99 - ?m \<le> 2 ^ n * TOL config_SI" using Suc.prems by (simp add: field_simps)
    from Suc.IH[OF m(1) m(3) this] obtain r where
      r: "bisection_loop config_SI (- 99) cold_HumRatio 101325 (- 99) ?m ((- 99 + ?m) / 2)
            = Some (Inr r)"
         "?m \<le> r" "r \<le> - 99" "- 99 - r \<le> 0.0005"
      by blast
    have "bisection_loop config_SI (- 99) cold_HumRatio 101325 (- 99) lower ?m = Some (Inr r)"
      using True W(1) nW r(1) by (subst bisection_loop.simps) simp
    moreover have "lower \<le> r" using r(2) Suc.prems by simp
    ultimately show ?thesis using r by blast
  qed
qed

lemma cold_GetTWetBulbFromHumRatio:
  "\<exists>d r. GetTDewPointFromHumRatio config_SI (- 99) cold_HumRatio 101325 = Some (Inr d) \<and>
     - 100 \<le> d \<and> d \<le> - 99.999 \<and>
     GetTWetBulbFromHumRatio config_SI (- 99) cold_HumRatio 101325 = Some (Inr r) \<and>
     d \<le> r \<and> r \<le> - 99 \<and> - 99 - r \<le> 0.0005"
proof -
  from cold_GetTDewPointFromHumRatio obtain d where
    d: "GetTDewPointFromHumRatio config_SI (- 99) cold_HumRatio 101325 = Some (Inr d)"
       "- 100 \<le> d" "d \<le> - 99.999"
    by blast
  have "- 99 - d \<le> 2 ^ 10 * TOL config_SI" using d(2) by (simp add: config_SI_def)
  from cold_bisection_loop[OF d(2) _ this] d(3) obtain r where
    r: "bisection_loop config_SI (- 99) cold_HumRatio 101325 (- 99) d ((- 99 + d) / 2)
          = Some (Inr r)"
       "d \<le> r" "r \<le> - 99" "- 99 - r \<le> 0.0005"
    by auto
  have "GetTWetBulbFromHumRatio config_SI (- 99) cold_HumRatio 101325 = Some (Inr r)"
    using cold_HumRatio_pos d(1) r(1) by (simp add: GetTWetBulbFromHumRatio_def add.commute)
  with d r show ?thesis by blast
qed

section \<open>The claims\<close>

subsection \<open>C8: the boundary values of the relative humidity\<close>

text \<open>
  Claim C8. For every dry-bulb temperature \<open>T\<close> in the valid range,
  \<^verbatim>\<open>GetVapPresFromRelHum(T, 0)\<close> returns exactly \<open>0\<close> and \<^verbatim>\<open>GetVapPresFromRelHum(T, 1)\<close>
  returns exactly \<^verbatim>\<open>GetSatVapPres(T)\<close>, which is a value and not a fault.
\<close>

theorem GetVapPresFromRelHum_boundary:
  assumes "valid_TDryBulb c TDryBulb"
  shows "GetVapPresFromRelHum c TDryBulb 0 = Inr 0 \<and>
         GetVapPresFromRelHum c TDryBulb 1 = GetSatVapPres c TDryBulb \<and>
         (\<exists>SatVapPres. GetSatVapPres c TDryBulb = Inr SatVapPres)"
  using GetSatVapPres_valid[OF assms] by (auto simp: GetVapPresFromRelHum_def)

theorem GetVapPresFromRelHum_boundary_witness:
  "valid_TDryBulb config_SI 25 \<and>
   GetVapPresFromRelHum config_SI 25 0 = Inr 0 \<and>
   GetVapPresFromRelHum config_SI 25 1 = Inr (exp (LnPws_SI_water 298.15))"
proof -
  have v: "valid_TDryBulb config_SI 25" by (simp add: valid_TDryBulb_def config_SI_def)
  from GetVapPresFromRelHum_boundary[OF v] v show ?thesis
    by (simp only: GetSatVapPres_SI_25)
qed

subsection \<open>C9: monotonicity of the relative humidity\<close>

text \<open>
  Claim C9. For every fixed dry-bulb temperature \<open>T\<close> in the valid range and all
  non-negative vapor pressures \<open>p1 \<le> p2\<close>, both calls of \<^verbatim>\<open>GetRelHumFromVapPres\<close> return
  a value and \<^verbatim>\<open>GetRelHumFromVapPres(T, p1) \<le> GetRelHumFromVapPres(T, p2)\<close>.
\<close>

theorem GetRelHumFromVapPres_mono:
  assumes "valid_TDryBulb c TDryBulb" and "0 \<le> p1" and "p1 \<le> p2"
  shows "\<exists>r1 r2. GetRelHumFromVapPres c TDryBulb p1 = Inr r1 \<and>
                 GetRelHumFromVapPres c TDryBulb p2 = Inr r2 \<and> r1 \<le> r2"
  using GetSatVapPres_valid[OF assms(1)] assms(2,3)
  by (auto simp: GetRelHumFromVapPres_def py_div_def divide_right_mono)

theorem GetRelHumFromVapPres_mono_witness:
  "valid_TDryBulb config_SI 25 \<and> (0::real) \<le> 1000 \<and> (1000::real) \<le> 2000 \<and>
   (\<exists>r1 r2. GetRelHumFromVapPres config_SI 25 1000 = Inr r1 \<and>
            GetRelHumFromVapPres config_SI 25 2000 = Inr r2 \<and> r1 \<le> r2)"
proof -
  have v: "valid_TDryBulb config_SI 25" by (simp add: valid_TDryBulb_def config_SI_def)
  from GetRelHumFromVapPres_mono[OF v, of 1000 2000] v show ?thesis by simp
qed

subsection \<open>C5: the range of the relative humidity\<close>

text \<open>
  What \<^verbatim>\<open>GetRelHumFromVapPres\<close> does return for a valid dry bulb and a non-negative
  vapor pressure: a value that is at least \<open>0\<close>, and at most \<open>1\<close> exactly when the vapor
  pressure does not exceed the saturation vapor pressure.
\<close>

lemma GetRelHumFromVapPres_range:
  assumes "valid_TDryBulb c TDryBulb" and "0 \<le> VapPres"
  shows "\<exists>SatVapPres RelHum. GetSatVapPres c TDryBulb = Inr SatVapPres \<and>
           GetRelHumFromVapPres c TDryBulb VapPres = Inr RelHum \<and> 0 \<le> RelHum \<and>
           (RelHum \<le> 1 \<longleftrightarrow> VapPres \<le> SatVapPres)"
  using GetSatVapPres_valid[OF assms(1)] assms(2)
  by (auto simp: GetRelHumFromVapPres_def py_div_def)

text \<open>
  Claim C5. Every relative humidity that the library returns lies in \<open>[0, 1]\<close>; the
  docstring of \<^verbatim>\<open>GetRelHumFromVapPres\<close> promises a result in that range. The function
  rejects only a negative vapor pressure and returns the quotient by the saturation
  pressure: in SI units, at \<open>25\<close> \<^verbatim>\<open>C\<close> the saturation pressure is below \<open>4200\<close> \<^verbatim>\<open>Pa\<close>, and
  for the non-negative vapor pressure \<open>5000\<close> \<^verbatim>\<open>Pa\<close> the call returns a value above \<open>1\<close>.
\<close>

theorem GetRelHumFromVapPres_above_one:
  "valid_TDryBulb config_SI 25 \<and> (0::real) \<le> 5000 \<and>
   GetRelHumFromVapPres config_SI 25 5000 = Inr (5000 / exp (LnPws_SI_water 298.15)) \<and>
   1 < 5000 / exp (LnPws_SI_water 298.15)"
proof -
  have v: "valid_TDryBulb config_SI 25" by (simp add: valid_TDryBulb_def config_SI_def)
  have "GetRelHumFromVapPres config_SI 25 5000 = Inr (5000 / exp (LnPws_SI_water 298.15))"
    unfolding GetRelHumFromVapPres_def GetSatVapPres_SI_25 by (simp add: py_div_def)
  moreover have "1 < 5000 / exp (LnPws_SI_water 298.15)"
    using SatVapPres_25_upper by simp
  ultimately show ?thesis using v by simp
qed

subsection \<open>C10: the unguarded division by the dry-air partial pressure\<close>

text \<open>
  Claim C10. \<^verbatim>\<open>GetHumRatioFromVapPres\<close> raises \<^verbatim>\<open>ValueError\<close> only for a negative vapor
  pressure and never compares the vapor pressure with the total pressure: with
  \<open>Pressure = VapPres\<close> the division is by zero, and with \<open>Pressure < VapPres\<close> the returned
  humidity ratio is negative. \<^verbatim>\<open>GetSatHumRatio\<close> divides by
  \<open>Pressure - SatVaporPres\<close> in the same unguarded way.
\<close>

theorem GetHumRatioFromVapPres_unguarded:
  "((\<exists>msg. GetHumRatioFromVapPres VapPres Pressure = Inl (ValueError msg)) \<longleftrightarrow> VapPres < 0) \<and>
   (0 \<le> VapPres \<and> Pressure = VapPres \<longrightarrow>
      GetHumRatioFromVapPres VapPres Pressure = Inl ZeroDivisionError) \<and>
   (0 < VapPres \<and> Pressure < VapPres \<longrightarrow>
      (\<exists>HumRatio. GetHumRatioFromVapPres VapPres Pressure = Inr HumRatio \<and> HumRatio < 0)) \<and>
   (GetSatVapPres c TDryBulb = Inr SatVaporPres \<longrightarrow>
      GetSatHumRatio c TDryBulb SatVaporPres = Inl ZeroDivisionError \<and>
      (\<forall>P. P < SatVaporPres \<longrightarrow>
         (\<exists>SatHumRatio. GetSatHumRatio c TDryBulb P = Inr SatHumRatio \<and> SatHumRatio < 0)))"
proof (intro conjI impI allI)
  show "(\<exists>msg. GetHumRatioFromVapPres VapPres Pressure = Inl (ValueError msg)) \<longleftrightarrow> VapPres < 0"
    by (simp add: GetHumRatioFromVapPres_def py_div_def)
next
  assume "0 \<le> VapPres \<and> Pressure = VapPres"
  then show "GetHumRatioFromVapPres VapPres Pressure = Inl ZeroDivisionError"
    by (simp add: GetHumRatioFromVapPres_def py_div_def)
next
  assume a: "0 < VapPres \<and> Pressure < VapPres"
  then have "0.621945 * VapPres / (Pressure - VapPres) < 0"
    by (simp add: divide_pos_neg)
  with a show "\<exists>HumRatio. GetHumRatioFromVapPres VapPres Pressure = Inr HumRatio \<and> HumRatio < 0"
    by (simp add: GetHumRatioFromVapPres_def py_div_def)
next
  assume "GetSatVapPres c TDryBulb = Inr SatVaporPres"
  then show "GetSatHumRatio c TDryBulb SatVaporPres = Inl ZeroDivisionError"
    by (simp add: GetSatHumRatio_def py_div_def)
next
  fix P
  assume sat: "GetSatVapPres c TDryBulb = Inr SatVaporPres" and P: "P < SatVaporPres"
  from sat have "0 < SatVaporPres" by (rule GetSatVapPres_pos)
  with P have "0.621945 * SatVaporPres / (P - SatVaporPres) < 0"
    by (simp add: divide_pos_neg)
  with sat P show "\<exists>SatHumRatio. GetSatHumRatio c TDryBulb P = Inr SatHumRatio \<and> SatHumRatio < 0"
    by (simp add: GetSatHumRatio_def py_div_def)
qed

theorem GetHumRatioFromVapPres_unguarded_witness:
  "GetHumRatioFromVapPres 1000 1000 = Inl ZeroDivisionError \<and>
   (\<exists>HumRatio. GetHumRatioFromVapPres 1000 500 = Inr HumRatio \<and> HumRatio < 0) \<and>
   GetSatVapPres config_SI 25 = Inr (exp (LnPws_SI_water 298.15)) \<and>
   GetSatHumRatio config_SI 25 (exp (LnPws_SI_water 298.15)) = Inl ZeroDivisionError \<and>
   (\<exists>SatHumRatio. GetSatHumRatio config_SI 25 0 = Inr SatHumRatio \<and> SatHumRatio < 0)"
proof -
  note sat = GetSatVapPres_SI_25
  have "(0::real) < exp (LnPws_SI_water 298.15)" by simp
  with GetHumRatioFromVapPres_unguarded[of 1000 1000 config_SI 25 "exp (LnPws_SI_water 298.15)"]
    GetHumRatioFromVapPres_unguarded[of 1000 500 config_SI 25 "exp (LnPws_SI_water 298.15)"]
    sat
  show ?thesis by simp
qed

subsection \<open>C3: calls before the unit system is set\<close>

text \<open>
  Claim C3 says that before \<^verbatim>\<open>SetUnitSystem\<close> has been called every formula operation
  fails with an uninitialized-state fault and that \<^verbatim>\<open>GetUnitSystem\<close> fails. In the
  initial state \<^verbatim>\<open>GetUnitSystem\<close> returns the unset value \<^verbatim>\<open>None\<close>, and
  \<^verbatim>\<open>GetHumRatioFromVapPres\<close> and \<^verbatim>\<open>GetVapPresFromHumRatio\<close>, which never read the
  configuration, return their numeric results.
\<close>

theorem uninitialized_calls_that_return:
  "UNITS initial_config = None \<and>
   GetUnitSystem initial_config = None \<and>
   GetHumRatioFromVapPres 1000 101325 = Inr (0.621945 * 1000 / (101325 - 1000)) \<and>
   GetVapPresFromHumRatio 0.01 101325 = Inr (101325 * 0.01 / (0.621945 + 0.01))"
  by (simp add: initial_config_def GetUnitSystem_def GetHumRatioFromVapPres_def
        GetVapPresFromHumRatio_def py_div_def)

text \<open>
  Claim C3 as amended. While the unit system is unset, \<^verbatim>\<open>GetUnitSystem\<close> does not fail and
  returns the unset value, \<^verbatim>\<open>isIP\<close> raises
  \<^verbatim>\<open>ValueError('The system of units has not been defined.')\<close>, and so does every other
  operation of the library except \<^verbatim>\<open>SetUnitSystem\<close>, the two temperature conversions,
  \<^verbatim>\<open>GetHumRatioFromVapPres\<close> and \<^verbatim>\<open>GetVapPresFromHumRatio\<close> (which never read the unit
  system), for all arguments that pass the checks the operation makes before it first
  reads the unit system: a relative humidity in \<open>[0, 1]\<close>, a non-negative humidity ratio,
  a wet-bulb or dew-point temperature not above the dry bulb, a non-negative vapor
  pressure; for \<^verbatim>\<open>GetRelHumFromHumRatio\<close> and \<^verbatim>\<open>GetVaporPressureDeficit\<close> the vapor pressure
  checked is the one computed from the humidity ratio and the pressure, which is
  non-negative exactly when \<open>Pressure * HumRatio\<close> is.
\<close>

theorem uninitialized_faults:
  assumes "UNITS c = None"
  shows "GetUnitSystem c = None \<and>
    isIP c = Inl (ValueError ''The system of units has not been defined.'') \<and>
    GetSatVapPres c TDryBulb = Inl (ValueError ''The system of units has not been defined.'') \<and>
    GetVapPresFromTDewPoint c TDewPoint = Inl (ValueError ''The system of units has not been defined.'') \<and>
    GetSatHumRatio c TDryBulb Pressure = Inl (ValueError ''The system of units has not been defined.'') \<and>
    GetSatAirEnthalpy c TDryBulb Pressure = Inl (ValueError ''The system of units has not been defined.'') \<and>
    GetHumRatioFromTDewPoint c TDewPoint Pressure = Inl (ValueError ''The system of units has not been defined.'') \<and>
    GetDryAirEnthalpy c TDryBulb = Inl (ValueError ''The system of units has not been defined.'') \<and>
    GetDryAirDensity c TDryBulb Pressure = Inl (ValueError ''The system of units has not been defined.'') \<and>
    GetDryAirVolume c TDryBulb Pressure = Inl (ValueError ''The system of units has not been defined.'') \<and>
    GetStandardAtmPressure c Altitude = Inl (ValueError ''The system of units has not been defined.'') \<and>
    GetStandardAtmTemperature c Altitude = Inl (ValueError ''The system of units has not been defined.'') \<and>
    GetSeaLevelPressure c StationPressure Altitude TDryBulb = Inl (ValueError ''The system of units has not been defined.'') \<and>
    GetStationPressure c SeaLevelPressure Altitude TDryBulb = Inl (ValueError ''The system of units has not been defined.'') \<and>
    GetTDewPointFromVapPres c TDryBulb VapPres = Some (Inl (ValueError ''The system of units has not been defined.'')) \<and>
    CalcPsychrometricsFromTDewPoint c TDryBulb TDewPoint Pressure = Some (Inl (ValueError ''The system of units has not been defined.'')) \<and>
    (0 \<le> VapPres \<longrightarrow> GetRelHumFromVapPres c TDryBulb VapPres = Inl (ValueError ''The system of units has not been defined.'')) \<and>
    (0 \<le> RelHum \<and> RelHum \<le> 1 \<longrightarrow>
       GetVapPresFromRelHum c TDryBulb RelHum = Inl (ValueError ''The system of units has not been defined.'') \<and>
       GetHumRatioFromRelHum c TDryBulb RelHum Pressure = Inl (ValueError ''The system of units has not been defined.'') \<and>
       GetTDewPointFromRelHum c TDryBulb RelHum = Some (Inl (ValueError ''The system of units has not been defined.'')) \<and>
       GetTWetBulbFromRelHum c TDryBulb RelHum Pressure = Some (Inl (ValueError ''The system of units has not been defined.'')) \<and>
       CalcPsychrometricsFromRelHum c TDryBulb RelHum Pressure = Some (Inl (ValueError ''The system of units has not been defined.''))) \<and>
    (TDewPoint \<le> TDryBulb \<longrightarrow>
       GetRelHumFromTDewPoint c TDryBulb TDewPoint = Inl (ValueError ''The system of units has not been defined.'') \<and>
       GetTWetBulbFromTDewPoint c TDryBulb TDewPoint Pressure = Some (Inl (ValueError ''The system of units has not been defined.''))) \<and>
    (TWetBulb \<le> TDryBulb \<longrightarrow>
       GetHumRatioFromTWetBulb c TDryBulb TWetBulb Pressure = Inl (ValueError ''The system of units has not been defined.'') \<and>
       GetRelHumFromTWetBulb c TDryBulb TWetBulb Pressure = Inl (ValueError ''The system of units has not been defined.'') \<and>
       GetTDewPointFromTWetBulb c TDryBulb TWetBulb Pressure = Some (Inl (ValueError ''The system of units has not been defined.'')) \<and>
       CalcPsychrometricsFromTWetBulb c TDryBulb TWetBulb Pressure = Some (Inl (ValueError ''The system of units has not been defined.''))) \<and>
    (0 \<le> HumRatio \<longrightarrow>
       GetMoistAirEnthalpy c TDryBulb HumRatio = Inl (ValueError ''The system of units has not been defined.'') \<and>
       GetMoistAirVolume c TDryBulb HumRatio Pressure = Inl (ValueError ''The system of units has not been defined.'') \<and>
       GetMoistAirDensity c TDryBulb HumRatio Pressure = Inl (ValueError ''The system of units has not been defined.'') \<and>
       GetDegreeOfSaturation c TDryBulb HumRatio Pressure = Inl (ValueError ''The system of units has not been defined.'') \<and>
       GetTDewPointFromHumRatio c TDryBulb HumRatio Pressure = Some (Inl (ValueError ''The system of units has not been defined.'')) \<and>
       GetTWetBulbFromHumRatio c TDryBulb HumRatio Pressure = Some (Inl (ValueError ''The system of units has not been defined.''))) \<and>
    (0 \<le> HumRatio \<and> 0 \<le> Pressure * HumRatio \<longrightarrow>
       GetRelHumFromHumRatio c TDryBulb HumRatio Pressure = Inl (ValueError ''The system of units has not been defined.'') \<and>
       GetVaporPressureDeficit c TDryBulb HumRatio Pressure = Inl (ValueError ''The system of units has not been defined.''))"
proof -
  note ip = isIP_unset[OF assms]
  have sat: "GetSatVapPres c T = Inl (ValueError ''The system of units has not been defined.'')" for T
    by (simp add: GetSatVapPres_def ip)
  have dew: "GetTDewPointFromVapPres c T p = Some (Inl (ValueError ''The system of units has not been defined.''))" for T p
    by (simp add: GetTDewPointFromVapPres_def ip)
  have vp: "0 \<le> HumRatio \<Longrightarrow> \<exists>p. GetVapPresFromHumRatio HumRatio Pressure = Inr p"
    by (simp add: GetVapPresFromHumRatio_def py_div_def)
  have shr: "GetSatHumRatio c T P = Inl (ValueError ''The system of units has not been defined.'')" for T P
    by (simp add: GetSatHumRatio_def sat)
  have hdp: "GetHumRatioFromTDewPoint c T P = Inl (ValueError ''The system of units has not been defined.'')" for T P
    by (simp add: GetHumRatioFromTDewPoint_def sat)
  have slp: "GetSeaLevelPressure c S A T = Inl (ValueError ''The system of units has not been defined.'')" for S A T
    by (simp add: GetSeaLevelPressure_def ip)
  have dhr: "0 \<le> HumRatio \<Longrightarrow>
      GetTDewPointFromHumRatio c TDryBulb HumRatio Pressure = Some (Inl (ValueError ''The system of units has not been defined.''))"
    using vp by (auto simp: GetTDewPointFromHumRatio_def dew)
  have hwb: "TWetBulb \<le> TDryBulb \<Longrightarrow>
      GetHumRatioFromTWetBulb c TDryBulb TWetBulb Pressure = Inl (ValueError ''The system of units has not been defined.'')"
    by (simp add: GetHumRatioFromTWetBulb_def shr)
  have vrh: "0 \<le> RelHum \<and> RelHum \<le> 1 \<Longrightarrow> GetVapPresFromRelHum c TDryBulb RelHum = Inl (ValueError ''The system of units has not been defined.'')"
    by (auto simp: GetVapPresFromRelHum_def sat)
  have hrh: "0 \<le> RelHum \<and> RelHum \<le> 1 \<Longrightarrow>
      GetHumRatioFromRelHum c TDryBulb RelHum Pressure = Inl (ValueError ''The system of units has not been defined.'')"
    using vrh by (auto simp: GetHumRatioFromRelHum_def)
  have vol: "0 \<le> HumRatio \<Longrightarrow> GetMoistAirVolume c TDryBulb HumRatio Pressure = Inl (ValueError ''The system of units has not been defined.'')"
    by (simp add: GetMoistAirVolume_def ip)
  have rhh: "GetRelHumFromHumRatio c TDryBulb HumRatio Pressure = Inl (ValueError ''The system of units has not been defined.'')"
    if "0 \<le> HumRatio" "0 \<le> Pressure * HumRatio"
  proof -
    from that have "0 \<le> Pressure * HumRatio / (0.621945 + HumRatio)" by simp
    with that(1) show ?thesis
      by (simp add: GetRelHumFromHumRatio_def GetVapPresFromHumRatio_def py_div_def
            GetRelHumFromVapPres_def sat)
  qed
  have part1: "GetUnitSystem c = None \<and>
    isIP c = Inl (ValueError ''The system of units has not been defined.'') \<and>
    GetSatVapPres c TDryBulb = Inl (ValueError ''The system of units has not been defined.'') \<and>
    GetVapPresFromTDewPoint c TDewPoint = Inl (ValueError ''The system of units has not been defined.'') \<and>
    GetSatHumRatio c TDryBulb Pressure = Inl (ValueError ''The system of units has not been defined.'') \<and>
    GetSatAirEnthalpy c TDryBulb Pressure = Inl (ValueError ''The system of units has not been defined.'') \<and>
    GetHumRatioFromTDewPoint c TDewPoint Pressure = Inl (ValueError ''The system of units has not been defined.'') \<and>
    GetDryAirEnthalpy c TDryBulb = Inl (ValueError ''The system of units has not been defined.'') \<and>
    GetDryAirDensity c TDryBulb Pressure = Inl (ValueError ''The system of units has not been defined.'') \<and>
    GetDryAirVolume c TDryBulb Pressure = Inl (ValueError ''The system of units has not been defined.'') \<and>
    GetStandardAtmPressure c Altitude = Inl (ValueError ''The system of units has not been defined.'') \<and>
    GetStandardAtmTemperature c Altitude = Inl (ValueError ''The system of units has not been defined.'') \<and>
    GetSeaLevelPressure c StationPressure Altitude TDryBulb = Inl (ValueError ''The system of units has not been defined.'') \<and>
    GetStationPressure c SeaLevelPressure Altitude TDryBulb = Inl (ValueError ''The system of units has not been defined.'') \<and>
    GetTDewPointFromVapPres c TDryBulb VapPres = Some (Inl (ValueError ''The system of units has not been defined.'')) \<and>
    CalcPsychrometricsFromTDewPoint c TDryBulb TDewPoint Pressure = Some (Inl (ValueError ''The system of units has not been defined.''))"
    using assms
    by (simp add: GetUnitSystem_def ip sat dew shr hdp slp GetVapPresFromTDewPoint_def
          GetSatAirEnthalpy_def GetDryAirEnthalpy_def GetDryAirDensity_def GetDryAirVolume_def
          GetStandardAtmPressure_def GetStandardAtmTemperature_def GetStationPressure_def
          CalcPsychrometricsFromTDewPoint_def)
  have part2: "(0 \<le> VapPres \<longrightarrow> GetRelHumFromVapPres c TDryBulb VapPres = Inl (ValueError ''The system of units has not been defined.'')) \<and>
    (0 \<le> RelHum \<and> RelHum \<le> 1 \<longrightarrow>
       GetVapPresFromRelHum c TDryBulb RelHum = Inl (ValueError ''The system of units has not been defined.'') \<and>
       GetHumRatioFromRelHum c TDryBulb RelHum Pressure = Inl (ValueError ''The system of units has not been defined.'') \<and>
       GetTDewPointFromRelHum c TDryBulb RelHum = Some (Inl (ValueError ''The system of units has not been defined.'')) \<and>
       GetTWetBulbFromRelHum c TDryBulb RelHum Pressure = Some (Inl (ValueError ''The system of units has not been defined.'')) \<and>
       CalcPsychrometricsFromRelHum c TDryBulb RelHum Pressure = Some (Inl (ValueError ''The system of units has not been defined.''))) \<and>
    (TDewPoint \<le> TDryBulb \<longrightarrow>
       GetRelHumFromTDewPoint c TDryBulb TDewPoint = Inl (ValueError ''The system of units has not been defined.'') \<and>
       GetTWetBulbFromTDewPoint c TDryBulb TDewPoint Pressure = Some (Inl (ValueError ''The system of units has not been defined.''))) \<and>
    (TWetBulb \<le> TDryBulb \<longrightarrow>
       GetHumRatioFromTWetBulb c TDryBulb TWetBulb Pressure = Inl (ValueError ''The system of units has not been defined.'') \<and>
       GetRelHumFromTWetBulb c TDryBulb TWetBulb Pressure = Inl (ValueError ''The system of units has not been defined.'') \<and>
       GetTDewPointFromTWetBulb c TDryBulb TWetBulb Pressure = Some (Inl (ValueError ''The system of units has not been defined.'')) \<and>
       CalcPsychrometricsFromTWetBulb c TDryBulb TWetBulb Pressure = Some (Inl (ValueError ''The system of units has not been defined.'')))"
    by (auto simp: sat dew hdp hwb vrh hrh GetRelHumFromVapPres_def
          GetTDewPointFromRelHum_def GetTWetBulbFromRelHum_def CalcPsychrometricsFromRelHum_def
          GetRelHumFromTDewPoint_def GetTWetBulbFromTDewPoint_def GetRelHumFromTWetBulb_def
          GetTDewPointFromTWetBulb_def CalcPsychrometricsFromTWetBulb_def)
  have part3: "(0 \<le> HumRatio \<longrightarrow>
       GetMoistAirEnthalpy c TDryBulb HumRatio = Inl (ValueError ''The system of units has not been defined.'') \<and>
       GetMoistAirVolume c TDryBulb HumRatio Pressure = Inl (ValueError ''The system of units has not been defined.'') \<and>
       GetMoistAirDensity c TDryBulb HumRatio Pressure = Inl (ValueError ''The system of units has not been defined.'') \<and>
       GetDegreeOfSaturation c TDryBulb HumRatio Pressure = Inl (ValueError ''The system of units has not been defined.'') \<and>
       GetTDewPointFromHumRatio c TDryBulb HumRatio Pressure = Some (Inl (ValueError ''The system of units has not been defined.'')) \<and>
       GetTWetBulbFromHumRatio c TDryBulb HumRatio Pressure = Some (Inl (ValueError ''The system of units has not been defined.''))) \<and>
    (0 \<le> HumRatio \<and> 0 \<le> Pressure * HumRatio \<longrightarrow>
       GetRelHumFromHumRatio c TDryBulb HumRatio Pressure = Inl (ValueError ''The system of units has not been defined.'') \<and>
       GetVaporPressureDeficit c TDryBulb HumRatio Pressure = Inl (ValueError ''The system of units has not been defined.''))"
    by (auto simp: ip shr dhr vol rhh GetMoistAirEnthalpy_def GetMoistAirDensity_def
          GetDegreeOfSaturation_def GetTWetBulbFromHumRatio_def GetVaporPressureDeficit_def)
  from part1 part2 part3 show ?thesis by (elim conjE, intro conjI) assumption+
qed

theorem uninitialized_faults_witness:
  "UNITS initial_config = None \<and>
   GetUnitSystem initial_config = None \<and>
   GetSatVapPres initial_config 25 = Inl (ValueError ''The system of units has not been defined.'') \<and>
   GetStandardAtmPressure initial_config 1000 = Inl (ValueError ''The system of units has not been defined.'') \<and>
   GetTDewPointFromVapPres initial_config 25 1000 = Some (Inl (ValueError ''The system of units has not been defined.'')) \<and>
   GetVapPresFromRelHum initial_config 25 0.5 = Inl (ValueError ''The system of units has not been defined.'') \<and>
   GetRelHumFromTDewPoint initial_config 25 20 = Inl (ValueError ''The system of units has not been defined.'') \<and>
   GetHumRatioFromTWetBulb initial_config 25 20 101325 = Inl (ValueError ''The system of units has not been defined.'') \<and>
   GetMoistAirEnthalpy initial_config 25 0.01 = Inl (ValueError ''The system of units has not been defined.'') \<and>
   GetRelHumFromHumRatio initial_config 25 0.01 101325 = Inl (ValueError ''The system of units has not been defined.'')"
proof -
  have u: "UNITS initial_config = None" by (simp add: initial_config_def)
  from uninitialized_faults[OF u, where TDryBulb = 25 and TDewPoint = 20 and TWetBulb = 20
      and Pressure = 101325 and Altitude = 1000 and VapPres = 1000 and RelHum = "0.5"
      and HumRatio = "0.01" and StationPressure = 101325 and SeaLevelPressure = 101325] u
  show ?thesis by simp
qed

subsection \<open>C2 and C6: the bisection of \<^verbatim>\<open>GetTWetBulbFromHumRatio\<close>\<close>

lemma GetTDewPointFromVapPres_le_TDryBulb:
  "GetTDewPointFromVapPres c TDryBulb VapPres = Some (Inr TDewPoint) \<Longrightarrow> TDewPoint \<le> TDryBulb"
  by (auto simp: GetTDewPointFromVapPres_def split: sum.splits if_splits option.splits)

lemma GetTDewPointFromHumRatio_le_TDryBulb:
  "GetTDewPointFromHumRatio c TDryBulb HumRatio Pressure = Some (Inr TDewPoint) \<Longrightarrow>
   0 \<le> HumRatio \<and> TDewPoint \<le> TDryBulb"
  by (auto simp: GetTDewPointFromHumRatio_def split: sum.splits if_splits
           dest: GetTDewPointFromVapPres_le_TDryBulb)

lemma GetHumRatioFromTWetBulb_fault:
  "GetHumRatioFromTWetBulb c TDryBulb TWetBulb Pressure = Inl e \<Longrightarrow> e \<noteq> (ValueError ''Partial pressure of water vapor is outside range of validity of equations'')"
  by (auto simp: GetHumRatioFromTWetBulb_def GetSatHumRatio_def py_div_def isIP_def
           split: if_splits sum.splits bool.splits dest: GetSatVapPres_fault)

lemma bisection_spec_fault:
  "bisection_spec c TDryBulb HumRatio Pressure lower upper r \<Longrightarrow> r \<noteq> Inl (ValueError ''Partial pressure of water vapor is outside range of validity of equations'')"
  by (induction rule: bisection_spec.induct) (auto dest: GetHumRatioFromTWetBulb_fault)

lemma zero_HumRatio:
  "GetTDewPointFromHumRatio config_SI 25 0 101325 = Some (Inl (ValueError ''Partial pressure of water vapor is outside range of validity of equations''))"
  "GetTWetBulbFromHumRatio config_SI 25 0 101325 = Some (Inl (ValueError ''Partial pressure of water vapor is outside range of validity of equations''))"
proof -
  have "GetVapPresFromHumRatio 0 101325 = Inr 0"
    by (simp add: GetVapPresFromHumRatio_def py_div_def)
  moreover have "GetTDewPointFromVapPres config_SI 25 0 = Some (Inl (ValueError ''Partial pressure of water vapor is outside range of validity of equations''))"
    by (simp add: GetTDewPointFromVapPres_def isIP_config_SI BOUNDS_def GetSatVapPres_SI_lo)
  ultimately show 1: "GetTDewPointFromHumRatio config_SI 25 0 101325 = Some (Inl (ValueError ''Partial pressure of water vapor is outside range of validity of equations''))"
    by (simp add: GetTDewPointFromHumRatio_def)
  then show "GetTWetBulbFromHumRatio config_SI 25 0 101325 = Some (Inl (ValueError ''Partial pressure of water vapor is outside range of validity of equations''))"
    by (simp add: GetTWetBulbFromHumRatio_def)
qed

text \<open>
  Claim C2 says that for every dry-bulb temperature, non-negative humidity ratio and
  pressure \<^verbatim>\<open>GetTWetBulbFromHumRatio\<close> bisects the interval from the computed dew point to
  the dry bulb. For the non-negative humidity ratio \<open>0\<close> no dew point is computed: the
  vapor pressure is \<open>0\<close>, below the range check of \<^verbatim>\<open>GetTDewPointFromVapPres\<close>, and the
  call ends with that fault, which no bisection produces (lemma \<open>bisection_spec_fault\<close>).
\<close>

theorem GetTWetBulbFromHumRatio_no_dew_point:
  "(0::real) \<le> 0 \<and>
   GetTDewPointFromHumRatio config_SI 25 0 101325 = Some (Inl (ValueError ''Partial pressure of water vapor is outside range of validity of equations'')) \<and>
   GetTWetBulbFromHumRatio config_SI 25 0 101325 = Some (Inl (ValueError ''Partial pressure of water vapor is outside range of validity of equations'')) \<and>
   \<not> bisection_spec config_SI 25 0 101325 (- 100) 25 (Inl (ValueError ''Partial pressure of water vapor is outside range of validity of equations''))"
  using zero_HumRatio bisection_spec_fault[of config_SI 25 0 101325 "- 100" 25 "Inl (ValueError ''Partial pressure of water vapor is outside range of validity of equations'')"]
  by blast

text \<open>
  Claim C2 as amended. For every dry-bulb temperature, non-negative humidity ratio and
  pressure: if the dew-point computation from them returns a value,
  \<^verbatim>\<open>GetTWetBulbFromHumRatio\<close> is the bisection of the specification on the interval from
  that dew point to the dry-bulb temperature, so its outcomes are exactly those of
  \<open>bisection_spec\<close>, which compares the humidity ratio at the midpoint with the target,
  moves the upper bound to the midpoint if it exceeds the target and the lower bound
  otherwise, and returns the midpoint of the interval once its width is at most the
  tolerance; if the dew-point computation raises a fault, the call raises that fault
  without bisecting, and if it does not end, neither does the call.
\<close>

theorem GetTWetBulbFromHumRatio_bisection:
  assumes "0 \<le> HumRatio"
  shows "(\<forall>TDewPoint.
       GetTDewPointFromHumRatio c TDryBulb HumRatio Pressure = Some (Inr TDewPoint) \<longrightarrow>
       (\<forall>r. GetTWetBulbFromHumRatio c TDryBulb HumRatio Pressure = Some r \<longleftrightarrow>
            bisection_spec c TDryBulb HumRatio Pressure TDewPoint TDryBulb r)) \<and>
    (\<forall>e. GetTDewPointFromHumRatio c TDryBulb HumRatio Pressure = Some (Inl e) \<longrightarrow>
         GetTWetBulbFromHumRatio c TDryBulb HumRatio Pressure = Some (Inl e)) \<and>
    (GetTDewPointFromHumRatio c TDryBulb HumRatio Pressure = None \<longrightarrow>
       GetTWetBulbFromHumRatio c TDryBulb HumRatio Pressure = None)"
proof (intro conjI allI impI)
  fix TDewPoint r
  assume dew: "GetTDewPointFromHumRatio c TDryBulb HumRatio Pressure = Some (Inr TDewPoint)"
  have eq: "GetTWetBulbFromHumRatio c TDryBulb HumRatio Pressure =
      bisection_loop c TDryBulb HumRatio Pressure TDryBulb TDewPoint ((TDewPoint + TDryBulb) / 2)"
    using assms dew by (simp add: GetTWetBulbFromHumRatio_def)
  show "GetTWetBulbFromHumRatio c TDryBulb HumRatio Pressure = Some r \<longleftrightarrow>
        bisection_spec c TDryBulb HumRatio Pressure TDewPoint TDryBulb r"
  proof
    assume "GetTWetBulbFromHumRatio c TDryBulb HumRatio Pressure = Some r"
    with eq have "bisection_loop c TDryBulb HumRatio Pressure TDryBulb TDewPoint
                    ((TDewPoint + TDryBulb) / 2) = Some r"
      by simp
    from bisection_loop_spec[OF this]
    show "bisection_spec c TDryBulb HumRatio Pressure TDewPoint TDryBulb r" by simp
  next
    assume "bisection_spec c TDryBulb HumRatio Pressure TDewPoint TDryBulb r"
    from bisection_spec_loop[OF this] eq
    show "GetTWetBulbFromHumRatio c TDryBulb HumRatio Pressure = Some r" by simp
  qed
next
  fix e
  assume "GetTDewPointFromHumRatio c TDryBulb HumRatio Pressure = Some (Inl e)"
  with assms show "GetTWetBulbFromHumRatio c TDryBulb HumRatio Pressure = Some (Inl e)"
    by (simp add: GetTWetBulbFromHumRatio_def)
next
  assume "GetTDewPointFromHumRatio c TDryBulb HumRatio Pressure = None"
  with assms show "GetTWetBulbFromHumRatio c TDryBulb HumRatio Pressure = None"
    by (simp add: GetTWetBulbFromHumRatio_def)
qed

theorem GetTWetBulbFromHumRatio_bisection_witness:
  "0 \<le> cold_HumRatio \<and>
   (\<exists>TDewPoint TWetBulb.
      GetTDewPointFromHumRatio config_SI (- 99) cold_HumRatio 101325 = Some (Inr TDewPoint) \<and>
      TOL config_SI < - 99 - TDewPoint \<and>
      GetTWetBulbFromHumRatio config_SI (- 99) cold_HumRatio 101325 = Some (Inr TWetBulb) \<and>
      TDewPoint \<le> TWetBulb \<and> TWetBulb \<le> - 99 \<and>
      bisection_spec config_SI (- 99) cold_HumRatio 101325 TDewPoint (- 99) (Inr TWetBulb))"
proof -
  have W: "0 \<le> cold_HumRatio" using cold_HumRatio_pos by simp
  from cold_GetTWetBulbFromHumRatio obtain d r where
    d: "GetTDewPointFromHumRatio config_SI (- 99) cold_HumRatio 101325 = Some (Inr d)"
       "d \<le> - 99.999"
    and r: "GetTWetBulbFromHumRatio config_SI (- 99) cold_HumRatio 101325 = Some (Inr r)"
       "d \<le> r" "r \<le> - 99"
    by blast
  from GetTWetBulbFromHumRatio_bisection[OF W, of config_SI "- 99" 101325] d(1) r(1)
  have "bisection_spec config_SI (- 99) cold_HumRatio 101325 d (- 99) (Inr r)" by blast
  moreover have "TOL config_SI < - 99 - d" using d(2) by (simp add: config_SI_def field_simps)
  ultimately show ?thesis using W d(1) r by blast
qed

text \<open>
  Claim C6. For every dry-bulb temperature, non-negative humidity ratio and pressure for
  which the dew point has been computed, that dew point does not exceed the dry-bulb
  temperature, and if the configured tolerance is strictly positive the bisection loop
  ends, and with it the call of \<^verbatim>\<open>GetTWetBulbFromHumRatio\<close>, although the loop has no
  iteration cap: the width halves in each pass (lemma \<open>bisection_loop_terminates_within\<close>).
\<close>

theorem GetTWetBulbFromHumRatio_bisection_terminates:
  assumes "0 < TOL c" and "0 \<le> HumRatio"
    and "GetTDewPointFromHumRatio c TDryBulb HumRatio Pressure = Some (Inr TDewPoint)"
  shows "TDewPoint \<le> TDryBulb \<and>
    (\<exists>r. bisection_loop c TDryBulb HumRatio Pressure TDryBulb TDewPoint
            ((TDryBulb + TDewPoint) / 2) = Some r) \<and>
    (\<exists>r. GetTWetBulbFromHumRatio c TDryBulb HumRatio Pressure = Some r)"
proof -
  from bisection_loop_terminates[OF assms(1)] obtain r where
    r: "bisection_loop c TDryBulb HumRatio Pressure TDryBulb TDewPoint
          ((TDryBulb + TDewPoint) / 2) = Some r"
    by blast
  then have "GetTWetBulbFromHumRatio c TDryBulb HumRatio Pressure = Some r"
    using assms(2,3) by (simp add: GetTWetBulbFromHumRatio_def add.commute)
  with r GetTDewPointFromHumRatio_le_TDryBulb[OF assms(3)] show ?thesis by blast
qed

theorem GetTWetBulbFromHumRatio_bisection_terminates_witness:
  "0 < TOL config_SI \<and> 0 \<le> cold_HumRatio \<and>
   (\<exists>TDewPoint.
      GetTDewPointFromHumRatio config_SI (- 99) cold_HumRatio 101325 = Some (Inr TDewPoint) \<and>
      TOL config_SI < - 99 - TDewPoint \<and>
      (\<exists>r. bisection_loop config_SI (- 99) cold_HumRatio 101325 (- 99) TDewPoint
              ((- 99 + TDewPoint) / 2) = Some r) \<and>
      (\<exists>r. GetTWetBulbFromHumRatio config_SI (- 99) cold_HumRatio 101325 = Some r))"
proof -
  have tol: "0 < TOL config_SI" by (simp add: config_SI_def)
  have W: "0 \<le> cold_HumRatio" using cold_HumRatio_pos by simp
  from cold_GetTDewPointFromHumRatio obtain d where
    d: "GetTDewPointFromHumRatio config_SI (- 99) cold_HumRatio 101325 = Some (Inr d)"
       "d \<le> - 99.999"
    by blast
  have wide: "TOL config_SI < - 99 - d" using d(2) by (simp add: config_SI_def field_simps)
  from GetTWetBulbFromHumRatio_bisection_terminates[OF tol W d(1)] tol W d(1) wide
  show ?thesis by blast
qed

subsection \<open>C1 and C7: \<^verbatim>\<open>GetTDewPointFromVapPres\<close>\<close>


lemma GetTDewPointFromVapPres_accepted:
  assumes "isIP c = Inr ip"
    and "GetSatVapPres c (fst (BOUNDS ip)) = Inr SatVapPres_lo"
    and "GetSatVapPres c (snd (BOUNDS ip)) = Inr SatVapPres_hi"
    and "SatVapPres_lo \<le> VapPres" and "VapPres \<le> SatVapPres_hi"
  shows "GetTDewPointFromVapPres c TDryBulb VapPres =
     (case NR_loop c ip (ln VapPres) TDryBulb of
        None \<Rightarrow> None
      | Some (Inl e) \<Rightarrow> Some (Inl e)
      | Some (Inr TDewPoint) \<Rightarrow> Some (Inr (min TDewPoint TDryBulb)))"
proof -
  from assms(2) have "0 < SatVapPres_lo" by (rule GetSatVapPres_pos)
  with assms(4) have "py_log VapPres = Inr (ln VapPres)" by (simp add: py_log_def)
  with assms show ?thesis by (simp add: GetTDewPointFromVapPres_def)
qed



lemma NR_step_fault:
  "NR_step c ip lnVP T = Inl e \<Longrightarrow> e \<noteq> (ValueError ''Partial pressure of water vapor is outside range of validity of equations'')"
  by (auto simp: NR_step_def Let_def py_log_def py_div_def
           split: sum.splits if_splits dest: GetSatVapPres_fault)

lemma NR_loop_fault:
  assumes "NR_loop c ip lnVP T0 = Some (Inl e)"
  shows "e \<noteq> (ValueError ''Partial pressure of water vapor is outside range of validity of equations'')"
proof -
  from NR_loop_trace[OF assms] obtain Tprev where "NR_step c ip lnVP Tprev = Inl e"
    by (auto simp: NR_ends_def)
  then show ?thesis by (rule NR_step_fault)
qed

text \<open>
  Claim C7 says that \<^verbatim>\<open>GetTDewPointFromVapPres\<close> raises an invalid-argument fault exactly
  when the vapor pressure is outside the saturation pressures at the validity bounds. A
  vapor pressure inside that range still raises one when the dry-bulb temperature is
  outside the validity bounds: the first pass of the loop calls \<^verbatim>\<open>GetSatVapPres(TDryBulb)\<close>.
  In SI units, \<open>1000\<close> \<^verbatim>\<open>Pa\<close> is in range and a dry bulb of \<open>500\<close> \<^verbatim>\<open>C\<close> is not.
\<close>

theorem GetTDewPointFromVapPres_dry_bulb_fault:
  "isIP config_SI = Inr False \<and>
   GetSatVapPres config_SI (- 100) = Inr (exp (LnPws_SI_ice 173.15)) \<and>
   GetSatVapPres config_SI 200 = Inr (exp (LnPws_SI_water 473.15)) \<and>
   exp (LnPws_SI_ice 173.15) \<le> 1000 \<and> 1000 \<le> exp (LnPws_SI_water 473.15) \<and>
   GetTDewPointFromVapPres config_SI 500 1000 =
     Some (Inl (ValueError (''Dry bulb temperature must be in range [-100, 200]'' @ [CHR 0xB0] @ ''C'')))"
proof -
  have sat: "GetSatVapPres config_SI 500 =
      Inl (ValueError (''Dry bulb temperature must be in range [-100, 200]'' @ [CHR 0xB0] @ ''C''))"
    by (simp add: GetSatVapPres_def isIP_config_SI)
  have step: "NR_step config_SI False (ln 1000) 500 =
      Inl (ValueError (''Dry bulb temperature must be in range [-100, 200]'' @ [CHR 0xB0] @ ''C''))"
    unfolding NR_step_def Let_def sat by simp
  have loop: "NR_loop config_SI False (ln 1000) 500 =
      Some (Inl (ValueError (''Dry bulb temperature must be in range [-100, 200]'' @ [CHR 0xB0] @ ''C'')))"
    by (subst NR_loop.simps) (simp only: step sum.case)
  have lo: "GetSatVapPres config_SI (fst (BOUNDS False)) = Inr (exp (LnPws_SI_ice 173.15))"
    unfolding BOUNDS_def using GetSatVapPres_SI_lo by simp
  have hi: "GetSatVapPres config_SI (snd (BOUNDS False)) = Inr (exp (LnPws_SI_water 473.15))"
    unfolding BOUNDS_def using GetSatVapPres_SI_hi by simp
  have "GetTDewPointFromVapPres config_SI 500 1000 =
      Some (Inl (ValueError (''Dry bulb temperature must be in range [-100, 200]'' @ [CHR 0xB0] @ ''C'')))"
    unfolding GetTDewPointFromVapPres_accepted[OF isIP_config_SI lo hi
        SatVapPres_lo_le_1000 SatVapPres_hi_ge_1000] loop
    by simp
  with isIP_config_SI GetSatVapPres_SI_lo GetSatVapPres_SI_hi
    SatVapPres_lo_le_1000 SatVapPres_hi_ge_1000
  show ?thesis by blast
qed

lemma NR_step_valid_fault:
  assumes "isIP c = Inr ip" and "valid_TDryBulb c T" and "NR_step c ip lnVP T = Inl e"
  shows "e = ZeroDivisionError"
proof -
  let ?S = "if T > (fst (BOUNDS ip) + snd (BOUNDS ip)) / 2 then - STEPSIZE ip else STEPSIZE ip"
  have "valid_TDryBulb c (T + ?S)"
    using assms(1,2) by (auto simp: valid_TDryBulb_BOUNDS BOUNDS_def STEPSIZE_def)
  then obtain p1 where p1: "GetSatVapPres c (T + ?S) = Inr p1" "0 < p1"
    by (blast dest: GetSatVapPres_valid)
  from assms(2) obtain p0 where p0: "GetSatVapPres c T = Inr p0" "0 < p0"
    by (blast dest: GetSatVapPres_valid)
  from assms(3) p0 p1 show ?thesis
    by (auto simp: NR_step_def Let_def py_log_def py_div_def split: if_splits sum.splits)
qed

lemma NR_step_invalid_fault:
  assumes "isIP c = Inr ip" and "\<not> valid_TDryBulb c T"
  shows "\<exists>msg. NR_step c ip lnVP T = Inl (ValueError msg)"
proof -
  from assms(1) have "UNITS c = Some (if ip then IP else SI)" by (simp add: isIP_Inr_iff)
  with assms(2) have "\<exists>msg. GetSatVapPres c T = Inl (ValueError msg)"
    using assms(1) by (cases ip) (auto simp: valid_TDryBulb_def GetSatVapPres_def)
  then show ?thesis by (auto simp: NR_step_def Let_def)
qed

lemma NR_trace_valid:
  assumes "isIP c = Inr ip" and "valid_TDryBulb c T0"
    and "(NR_continues c ip lnVP)\<^sup>*\<^sup>* T0 T"
  shows "valid_TDryBulb c T"
  using assms(3,2)
proof (induction rule: rtranclp_induct)
  case base
  then show ?case .
next
  case (step T T')
  from step.hyps(2) have "NR_step c ip lnVP T = Inr T'" by (simp add: NR_continues_def)
  from NR_step_clamped[OF this] assms(1) show ?case by (simp add: valid_TDryBulb_BOUNDS)
qed

lemma NR_loop_valid_fault:
  assumes "isIP c = Inr ip" and "valid_TDryBulb c T0" and "NR_loop c ip lnVP T0 = Some (Inl e)"
  shows "e = ZeroDivisionError"
proof -
  from NR_loop_trace[OF assms(3)] obtain Tprev where
    tr: "(NR_continues c ip lnVP)\<^sup>*\<^sup>* T0 Tprev" and fin: "NR_step c ip lnVP Tprev = Inl e"
    by (auto simp: NR_ends_def)
  from NR_trace_valid[OF assms(1,2) tr] have "valid_TDryBulb c Tprev" .
  from NR_step_valid_fault[OF assms(1) this fin] show ?thesis .
qed

lemma NR_loop_invalid_fault:
  assumes "isIP c = Inr ip" and "\<not> valid_TDryBulb c T0"
  shows "\<exists>msg. NR_loop c ip lnVP T0 = Some (Inl (ValueError msg))"
proof -
  from NR_step_invalid_fault[OF assms] obtain msg where
    "NR_step c ip lnVP T0 = Inl (ValueError msg)" by blast
  then have "NR_loop c ip lnVP T0 = Some (Inl (ValueError msg))"
    by (subst NR_loop.simps) simp
  then show ?thesis by blast
qed

text \<open>
  Claim C7 as amended. With the unit system set, the validity bounds are \<open>[-148, 392]\<close>
  in IP and \<open>[-100, 200]\<close> in SI units, \<^verbatim>\<open>GetSatVapPres\<close> returns a value at both, and
  \<^verbatim>\<open>GetTDewPointFromVapPres\<close> raises an invalid-argument fault (a \<^verbatim>\<open>ValueError\<close>) exactly
  when the vapor pressure is below the saturation pressure at the lower bound or above
  the one at the upper bound, or the dry-bulb temperature is outside the validity
  bounds; the fault is the one of the range check, with the message
  \<^verbatim>\<open>Partial pressure of water vapor is outside range of validity of equations\<close>, exactly in
  the first of these two cases.
\<close>

theorem GetTDewPointFromVapPres_range_fault:
  assumes "isIP c = Inr ip"
  shows "BOUNDS True = (- 148, 392) \<and> BOUNDS False = (- 100, 200) \<and>
    (\<exists>SatVapPres_lo SatVapPres_hi.
       GetSatVapPres c (fst (BOUNDS ip)) = Inr SatVapPres_lo \<and>
       GetSatVapPres c (snd (BOUNDS ip)) = Inr SatVapPres_hi \<and>
       ((\<exists>msg. GetTDewPointFromVapPres c TDryBulb VapPres = Some (Inl (ValueError msg)))
          \<longleftrightarrow> VapPres < SatVapPres_lo \<or> SatVapPres_hi < VapPres \<or>
              TDryBulb < fst (BOUNDS ip) \<or> snd (BOUNDS ip) < TDryBulb) \<and>
       (GetTDewPointFromVapPres c TDryBulb VapPres = Some (Inl (ValueError ''Partial pressure of water vapor is outside range of validity of equations''))
          \<longleftrightarrow> VapPres < SatVapPres_lo \<or> SatVapPres_hi < VapPres))"
proof -
  have "valid_TDryBulb c (fst (BOUNDS ip))" "valid_TDryBulb c (snd (BOUNDS ip))"
    using assms by (simp_all add: valid_TDryBulb_BOUNDS) (simp_all add: BOUNDS_def)
  then obtain lo hi where
    lo: "GetSatVapPres c (fst (BOUNDS ip)) = Inr lo" and
    hi: "GetSatVapPres c (snd (BOUNDS ip)) = Inr hi"
    by (blast dest: GetSatVapPres_valid)
  have valid: "valid_TDryBulb c TDryBulb \<longleftrightarrow>
      \<not> (TDryBulb < fst (BOUNDS ip) \<or> snd (BOUNDS ip) < TDryBulb)"
    using assms by (auto simp: valid_TDryBulb_BOUNDS)
  have msg: "GetTDewPointFromVapPres c TDryBulb VapPres = Some (Inl (ValueError ''Partial pressure of water vapor is outside range of validity of equations''))
          \<longleftrightarrow> VapPres < lo \<or> hi < VapPres"
  proof (cases "VapPres < lo \<or> hi < VapPres")
    case True
    with assms lo hi show ?thesis by (auto simp: GetTDewPointFromVapPres_def)
  next
    case False
    then have rc: "lo \<le> VapPres" "VapPres \<le> hi" by simp_all
    have "GetTDewPointFromVapPres c TDryBulb VapPres \<noteq> Some (Inl (ValueError ''Partial pressure of water vapor is outside range of validity of equations''))"
      unfolding GetTDewPointFromVapPres_accepted[OF assms lo hi rc]
      by (auto split: option.splits sum.splits dest: NR_loop_fault)
    with False show ?thesis by simp
  qed
  have any: "(\<exists>msg. GetTDewPointFromVapPres c TDryBulb VapPres = Some (Inl (ValueError msg)))
          \<longleftrightarrow> VapPres < lo \<or> hi < VapPres \<or>
              TDryBulb < fst (BOUNDS ip) \<or> snd (BOUNDS ip) < TDryBulb"
  proof (cases "VapPres < lo \<or> hi < VapPres")
    case True
    with msg show ?thesis by blast
  next
    case False
    then have rc: "lo \<le> VapPres" "VapPres \<le> hi" by simp_all
    note eq = GetTDewPointFromVapPres_accepted[OF assms lo hi rc, of TDryBulb]
    show ?thesis
    proof (cases "valid_TDryBulb c TDryBulb")
      case True
      have "\<not> (\<exists>msg. GetTDewPointFromVapPres c TDryBulb VapPres = Some (Inl (ValueError msg)))"
        unfolding eq
        by (auto split: option.splits sum.splits dest: NR_loop_valid_fault[OF assms True])
      with True False valid show ?thesis by blast
    next
      case invalid: False
      from NR_loop_invalid_fault[OF assms invalid, of "ln VapPres"] obtain m where
        "NR_loop c ip (ln VapPres) TDryBulb = Some (Inl (ValueError m))" by blast
      then have "GetTDewPointFromVapPres c TDryBulb VapPres = Some (Inl (ValueError m))"
        unfolding eq by simp
      with invalid valid show ?thesis by blast
    qed
  qed
  from lo hi any msg show ?thesis by (auto simp: BOUNDS_def)
qed

theorem GetTDewPointFromVapPres_range_fault_witness:
  "isIP config_SI = Inr False \<and>
   GetTDewPointFromVapPres config_SI 25 0 = Some (Inl (ValueError ''Partial pressure of water vapor is outside range of validity of equations'')) \<and>
   (\<exists>msg. GetTDewPointFromVapPres config_SI 500 1000 = Some (Inl (ValueError msg))) \<and>
   \<not> (\<exists>msg. GetTDewPointFromVapPres config_SI 25 example_VapPres = Some (Inl (ValueError msg)))"
proof -
  from GetTDewPointFromVapPres_range_fault[OF isIP_config_SI, of 25 0]
  obtain lo hi where
    lo: "GetSatVapPres config_SI (fst (BOUNDS False)) = Inr lo" and
    iff: "GetTDewPointFromVapPres config_SI 25 0 = Some (Inl (ValueError ''Partial pressure of water vapor is outside range of validity of equations''))
          \<longleftrightarrow> 0 < lo \<or> hi < (0::real)"
    by blast
  from lo have "0 < lo" by (rule GetSatVapPres_pos)
  with iff have 1: "GetTDewPointFromVapPres config_SI 25 0 = Some (Inl (ValueError ''Partial pressure of water vapor is outside range of validity of equations''))" by simp
  from GetTDewPointFromVapPres_range_fault[OF isIP_config_SI, of 500 1000]
  have 2: "\<exists>msg. GetTDewPointFromVapPres config_SI 500 1000 = Some (Inl (ValueError msg))"
    by (auto simp: BOUNDS_def)
  have 3: "\<not> (\<exists>msg. GetTDewPointFromVapPres config_SI 25 example_VapPres
                     = Some (Inl (ValueError msg)))"
    by (simp add: example_GetTDewPointFromVapPres)
  from isIP_config_SI 1 2 3 show ?thesis by blast
qed

subsection \<open>C4: rejection of invalid arguments\<close>

text \<open>
  Every function with its own argument check raises \<^verbatim>\<open>ValueError\<close> before anything else
  when that check fails, whatever the other arguments and the configuration are. Two
  composite accessors inherit the check of the first function they call.
\<close>

lemma invalid_arguments_rejected:
  "(RelHum < 0 \<or> RelHum > 1 \<longrightarrow>
      GetVapPresFromRelHum c TDryBulb RelHum = Inl (ValueError ''Relative humidity is outside range [0, 1]'') \<and>
      GetHumRatioFromRelHum c TDryBulb RelHum Pressure = Inl (ValueError ''Relative humidity is outside range [0, 1]'') \<and>
      GetTDewPointFromRelHum c TDryBulb RelHum = Some (Inl (ValueError ''Relative humidity is outside range [0, 1]'')) \<and>
      GetTWetBulbFromRelHum c TDryBulb RelHum Pressure = Some (Inl (ValueError ''Relative humidity is outside range [0, 1]'')) \<and>
      CalcPsychrometricsFromRelHum c TDryBulb RelHum Pressure = Some (Inl (ValueError ''Relative humidity is outside range [0, 1]'')))"
  "(HumRatio < 0 \<longrightarrow>
      GetTWetBulbFromHumRatio c TDryBulb HumRatio Pressure = Some (Inl (ValueError ''Humidity ratio cannot be negative'')) \<and>
      GetTDewPointFromHumRatio c TDryBulb HumRatio Pressure = Some (Inl (ValueError ''Humidity ratio cannot be negative'')) \<and>
      GetRelHumFromHumRatio c TDryBulb HumRatio Pressure = Inl (ValueError ''Humidity ratio cannot be negative'') \<and>
      GetVapPresFromHumRatio HumRatio Pressure = Inl (ValueError ''Humidity ratio is negative'') \<and>
      GetVaporPressureDeficit c TDryBulb HumRatio Pressure = Inl (ValueError ''Humidity ratio is negative'') \<and>
      GetDegreeOfSaturation c TDryBulb HumRatio Pressure = Inl (ValueError ''Humidity ratio is negative'') \<and>
      GetMoistAirEnthalpy c TDryBulb HumRatio = Inl (ValueError ''Humidity ratio is negative'') \<and>
      GetMoistAirVolume c TDryBulb HumRatio Pressure = Inl (ValueError ''Humidity ratio is negative'') \<and>
      GetMoistAirDensity c TDryBulb HumRatio Pressure = Inl (ValueError ''Humidity ratio is negative''))"
  "(TWetBulb > TDryBulb \<longrightarrow>
      GetHumRatioFromTWetBulb c TDryBulb TWetBulb Pressure = Inl (ValueError ''Wet bulb temperature is above dry bulb temperature'') \<and>
      GetRelHumFromTWetBulb c TDryBulb TWetBulb Pressure = Inl (ValueError ''Wet bulb temperature is above dry bulb temperature'') \<and>
      GetTDewPointFromTWetBulb c TDryBulb TWetBulb Pressure = Some (Inl (ValueError ''Wet bulb temperature is above dry bulb temperature'')) \<and>
      CalcPsychrometricsFromTWetBulb c TDryBulb TWetBulb Pressure = Some (Inl (ValueError ''Wet bulb temperature is above dry bulb temperature'')))"
  "(TDewPoint > TDryBulb \<longrightarrow>
      GetRelHumFromTDewPoint c TDryBulb TDewPoint = Inl (ValueError ''Dew point temperature is above dry bulb temperature'') \<and>
      GetTWetBulbFromTDewPoint c TDryBulb TDewPoint Pressure = Some (Inl (ValueError ''Dew point temperature is above dry bulb temperature'')))"
  by (auto simp: GetVapPresFromRelHum_def GetHumRatioFromRelHum_def GetTDewPointFromRelHum_def
        GetTWetBulbFromRelHum_def CalcPsychrometricsFromRelHum_def
        GetTWetBulbFromHumRatio_def GetTDewPointFromHumRatio_def GetRelHumFromHumRatio_def
        GetVapPresFromHumRatio_def GetVaporPressureDeficit_def GetDegreeOfSaturation_def
        GetMoistAirEnthalpy_def GetMoistAirVolume_def GetMoistAirDensity_def
        GetHumRatioFromTWetBulb_def GetRelHumFromTWetBulb_def GetTDewPointFromTWetBulb_def
        CalcPsychrometricsFromTWetBulb_def GetRelHumFromTDewPoint_def
        GetTWetBulbFromTDewPoint_def)

text \<open>
  Claim C4 says that every evaluator raises an invalid-argument fault when given a
  relative humidity outside \<open>[0, 1]\<close>, a negative humidity ratio, or a wet-bulb or
  dew-point temperature above the dry-bulb temperature. \<^verbatim>\<open>CalcPsychrometricsFromTDewPoint\<close>
  has no such check and none of the functions it calls compares the dew point with the
  dry bulb. In SI units, with a dry bulb of \<open>25\<close>, a dew point of \<open>25.0005\<close> and a pressure
  of \<open>101325\<close>, it returns its seven values, among them a wet bulb equal to the dry bulb
  and a relative humidity above \<open>1\<close>.
\<close>

theorem CalcPsychrometricsFromTDewPoint_dew_point_above_dry_bulb:
  "(25::real) < 25.0005 \<and>
   (\<exists>HumRatio RelHum VapPres MoistAirEnthalpy MoistAirVolume DegreeOfSaturation.
      CalcPsychrometricsFromTDewPoint config_SI 25 25.0005 101325 =
        Some (Inr (HumRatio, 25, RelHum, VapPres, MoistAirEnthalpy, MoistAirVolume,
                   DegreeOfSaturation)) \<and>
      1 < RelHum)"
proof -
  from example_CalcPsychrometricsFromTDewPoint example_RelHum_gt_1
  have "\<exists>HumRatio RelHum VapPres MoistAirEnthalpy MoistAirVolume DegreeOfSaturation.
      CalcPsychrometricsFromTDewPoint config_SI 25 25.0005 101325 =
        Some (Inr (HumRatio, 25, RelHum, VapPres, MoistAirEnthalpy, MoistAirVolume,
                   DegreeOfSaturation)) \<and>
      1 < RelHum"
    by blast
  then show ?thesis by simp
qed

end
